theory Spec2Isabelle
  imports Complex_Main "HOL-Library.AList"
begin

section \<open>Data model\<close>

text \<open>
  The ranking engine of \<^verbatim>\<open>src/lib/db.ts\<close> and the text similarity engine of
  \<^verbatim>\<open>src/app/page.tsx\<close>. JavaScript numbers are modelled as mathematical reals:
  rounding, infinities and NaN are outside the model. Optional fields of the TypeScript
  interfaces are \<open>option\<close> values; a JavaScript truthiness test on a number is
  written out as \<open>truthy\<close> (the number \<open>0\<close> counts as missing).
\<close>

record wordObj =
  "text" :: string
  confidence :: real

record textContent = wordObj +
  words :: "wordObj list"

record metadata =
  dominantColors :: "string list option"
  brightness :: "real option"
  contrast :: "real option"
  colorEntropy :: "real option"
  edgeDensity :: "real option"

record imageRecord =
  id' :: string
  dataUrl :: string
  embedding :: "real list"
  timestamp :: string
  metadata :: "metadata option"
  textContent :: "textContent option"

datatype error = VectorLengthMismatch

definition truthy :: "real option \<Rightarrow> bool" where
  "truthy v = (case v of None \<Rightarrow> False | Some x \<Rightarrow> x \<noteq> 0)"

section \<open>Vector metrics\<close>

text \<open>
  The three loops of the source walk the vectors in chunks of 128 indices; the chunking
  changes the order of no addition, so each loop is one sum over the indices.
\<close>

definition cosineSimilarity :: "real list \<Rightarrow> real list \<Rightarrow> error + real" where
  "cosineSimilarity a b =
     (if length a \<noteq> length b then Inl VectorLengthMismatch
      else let dotProduct = (\<Sum>(x, y)\<leftarrow>zip a b. x * y);
               normA = sqrt (\<Sum>x\<leftarrow>a. x * x);
               normB = sqrt (\<Sum>y\<leftarrow>b. y * y)
           in if normA = 0 \<or> normB = 0 then Inr 0
              else Inr (dotProduct / (normA * normB)))"

definition euclideanDistance :: "real list \<Rightarrow> real list \<Rightarrow> error + real" where
  "euclideanDistance a b =
     (if length a \<noteq> length b then Inl VectorLengthMismatch
      else Inr (sqrt (\<Sum>(x, y)\<leftarrow>zip a b. (x - y) * (x - y))))"

definition manhattanDistance :: "real list \<Rightarrow> real list \<Rightarrow> error + real" where
  "manhattanDistance a b =
     (if length a \<noteq> length b then Inl VectorLengthMismatch
      else Inr (\<Sum>(x, y)\<leftarrow>zip a b. \<bar>x - y\<bar>))"

section \<open>Colour similarity\<close>

text \<open>
  \<open>parseRgb\<close> applies the regular expression \<^verbatim>\<open>/rgb$$(\d+),(\d+),(\d+)$$/\<close>
  with \<^verbatim>\<open>String.prototype.match\<close>: an unanchored search for the first position where
  the pattern matches. The pattern is a sequence of literal characters, end-of-input
  assertions (\<^verbatim>\<open>$\<close>, no multiline flag) and greedy capturing groups \<^verbatim>\<open>(\d+)\<close>.
\<close>

datatype reAtom = Lit char | EndOfInput | Digits

definition isDigit :: "char \<Rightarrow> bool" where
  "isDigit c = (of_char c \<ge> (48::nat) \<and> of_char c \<le> (57::nat))"

fun firstSome :: "'a option list \<Rightarrow> 'a option" where
  "firstSome [] = None"
| "firstSome (None # xs) = firstSome xs"
| "firstSome (Some x # xs) = Some x"

text \<open>
  \<open>matchAt atoms s\<close> matches the pattern at the start of \<open>s\<close> and returns the captured
  groups. A group \<^verbatim>\<open>(\d+)\<close> tries the longest run of digits first and backtracks to
  shorter ones.
\<close>

fun matchAt :: "reAtom list \<Rightarrow> string \<Rightarrow> string list option" where
  "matchAt [] s = Some []"
| "matchAt (Lit c # as) s =
     (case s of [] \<Rightarrow> None | d # ds \<Rightarrow> if c = d then matchAt as ds else None)"
| "matchAt (EndOfInput # as) s = (if s = [] then matchAt as s else None)"
| "matchAt (Digits # as) s =
     firstSome (map (\<lambda>k. map_option (\<lambda>gs. take k s # gs) (matchAt as (drop k s)))
                    (rev [1..<Suc (length (takeWhile isDigit s))]))"

fun searchRe :: "reAtom list \<Rightarrow> string \<Rightarrow> string list option" where
  "searchRe atoms s =
     (case matchAt atoms s of
        Some gs \<Rightarrow> Some gs
      | None \<Rightarrow> (case s of [] \<Rightarrow> None | _ # t \<Rightarrow> searchRe atoms t))"

declare searchRe.simps [simp del]

definition rgbRegex :: "reAtom list" where
  "rgbRegex = [Lit CHR ''r'', Lit CHR ''g'', Lit CHR ''b'', EndOfInput, EndOfInput,
               Digits, Lit CHR '','', Digits, Lit CHR '','', Digits, EndOfInput, EndOfInput]"

definition parseInt :: "string \<Rightarrow> nat" where
  "parseInt ds = foldl (\<lambda>n c. 10 * n + (of_char c - 48)) 0 ds"

text \<open>
  The source memoises parsed colours in \<open>rgbCache\<close>; the cache changes no result and is
  left out. The three-element arrays are triples.
\<close>

definition parseRgb :: "string \<Rightarrow> real \<times> real \<times> real" where
  "parseRgb rgb =
     (case searchRe rgbRegex rgb of
        Some [m1, m2, m3] \<Rightarrow> (real (parseInt m1), real (parseInt m2), real (parseInt m3))
      | _ \<Rightarrow> (0, 0, 0))"

definition colorDistance :: "string \<Rightarrow> string \<Rightarrow> real" where
  "colorDistance color1 color2 =
     (case (parseRgb color1, parseRgb color2) of
        ((r1, g1, b1), (r2, g2, b2)) \<Rightarrow>
          let rDiff = r1 - r2; gDiff = g1 - g2; bDiff = b1 - b2
          in sqrt (rDiff * rDiff + gDiff * gDiff + bDiff * bDiff) / 441.67)"

definition bestMatch :: "string \<Rightarrow> string list \<Rightarrow> real" where
  "bestMatch colorA topColorsB =
     foldl (\<lambda>best colorB. min best (colorDistance colorA colorB)) 1.0 topColorsB"

definition colorSimilarity :: "string list option \<Rightarrow> string list option \<Rightarrow> real" where
  "colorSimilarity colorsA colorsB =
     (case colorsA of
        None \<Rightarrow> 0.5
      | Some cA \<Rightarrow>
         (case colorsB of
            None \<Rightarrow> 0.5
          | Some cB \<Rightarrow>
              if cA = [] \<or> cB = [] then 0.5
              else let topColorsA = take 3 cA; topColorsB = take 3 cB;
                       totalSimilarity = (\<Sum>colorA\<leftarrow>topColorsA. 1 - bestMatch colorA topColorsB)
                   in totalSimilarity / real (length topColorsA)))"

text \<open>
  The colour strings written by \<open>extractImageMetadata\<close>: each channel of a sampled
  pixel is quantised to a multiple of 40, the three numbers are joined by commas into the
  key of the colour histogram, and the five most frequent keys become \<^verbatim>\<open>rgb(<key>)\<close>.
\<close>

fun showNat :: "nat \<Rightarrow> string" where
  "showNat n =
     (if n < 10 then [''0123456789'' ! n]
      else showNat (n div 10) @ [''0123456789'' ! (n mod 10)])"

definition quantize :: "nat \<Rightarrow> nat" where
  "quantize v = nat (round (real v / 40)) * 40"

definition colorKey :: "nat \<times> nat \<times> nat \<Rightarrow> string" where
  "colorKey p = (case p of (r, g, b) \<Rightarrow>
     showNat (quantize r) @ '','' @ showNat (quantize g) @ '','' @ showNat (quantize b))"

definition rgbString :: "nat \<times> nat \<times> nat \<Rightarrow> string" where
  "rgbString p = ''rgb('' @ colorKey p @ '')''"

section \<open>Text similarity engine\<close>

text \<open>
  The word maps of \<open>calculateTextSimilarity\<close> are JavaScript \<open>Map\<close>s, which iterate in
  insertion order: association lists with one entry per key, a new key appended at the
  end. The \<open>words\<close> field is a list; an absent one is the empty list.
\<close>

record wordInfo =
  confidence' :: real
  count :: nat

type_synonym wordsMap = "(string \<times> wordInfo) list"

definition addWord :: "wordsMap \<Rightarrow> wordObj \<Rightarrow> wordsMap" where
  "addWord m wordObj =
     (let word = text wordObj
      in if length word < 2 then m
         else (case map_of m word of
                 Some existing \<Rightarrow>
                   AList.update word
                     \<lparr>confidence' = max (confidence' existing) (confidence wordObj),
                      count = count existing + 1\<rparr> m
               | None \<Rightarrow> m @ [(word, \<lparr>confidence' = confidence wordObj, count = 1\<rparr>)]))"

definition buildWordsMap :: "wordObj list \<Rightarrow> wordsMap" where
  "buildWordsMap ws = foldl addWord [] ws"

definition stopWords :: "string list" where
  "stopWords = [''the'', ''and'', ''a'', ''an'', ''in'', ''on'', ''at'', ''to'', ''for'',
     ''of'', ''with'', ''by'', ''as'', ''is'', ''are'', ''was'', ''were'', ''be'', ''been'',
     ''being'', ''have'', ''has'', ''had'', ''do'', ''does'', ''did'', ''but'', ''or'', ''if'',
     ''then'', ''else'', ''when'', ''up'', ''down'', ''out'', ''in'', ''that'', ''this'',
     ''these'', ''those'']"

text \<open>
  The character class of \<open>hasSpecial\<close> is
  \<^verbatim>\<open>[.,;:!?@#$%&*()-_+=[\]{}|<>/\\'"` ]\<close>: the characters before \<^verbatim>\<open>)\<close>, the range
  from \<^verbatim>\<open>)\<close> (code 41) to \<^verbatim>\<open>_\<close> (code 95), and the characters after it, listed
  here by character code.
\<close>

definition isSpecialChar :: "char \<Rightarrow> bool" where
  "isSpecialChar c =
     (let n = (of_char c :: nat)
      in n \<in> set [46, 44, 59, 58, 33, 63, 64, 35, 36, 37, 38, 42, 40]
         \<or> (41 \<le> n \<and> n \<le> 95)
         \<or> n \<in> set [43, 61, 91, 93, 123, 125, 124, 60, 62, 47, 92, 39, 34, 96, 32])"

definition calculateWordImportance :: "string \<Rightarrow> real" where
  "calculateWordImportance word =
     (let lengthImportance = min 1 (real (length word) / 5);
          contentImportance = (if word \<in> set stopWords then 0.3 else 1.0);
          hasNumbers = list_ex isDigit word;
          hasSpecial = list_ex isSpecialChar word;
          specialImportance = (if hasNumbers \<or> hasSpecial then 1.2 else 1.0)
      in lengthImportance * contentImportance * specialImportance)"

definition intersectionWeight :: "wordsMap \<Rightarrow> wordsMap \<Rightarrow> real" where
  "intersectionWeight wordsMapA wordsMapB =
     (\<Sum>(word, infoA)\<leftarrow>wordsMapA.
        (case map_of wordsMapB word of
           Some infoB \<Rightarrow>
             confidence' infoA * confidence' infoB
               * real (min (count infoA) (count infoB)) * calculateWordImportance word
         | None \<Rightarrow> 0))"

definition unionWeight :: "wordsMap \<Rightarrow> wordsMap \<Rightarrow> real" where
  "unionWeight wordsMapA wordsMapB =
     (\<Sum>(word, infoA)\<leftarrow>wordsMapA.
        confidence' infoA * real (count infoA) * calculateWordImportance word)
     + (\<Sum>(word, infoB)\<leftarrow>wordsMapB.
          if map_of wordsMapA word = None
          then confidence' infoB * real (count infoB) * calculateWordImportance word
          else 0)"

definition weightedJaccardSim :: "wordsMap \<Rightarrow> wordsMap \<Rightarrow> real" where
  "weightedJaccardSim wordsMapA wordsMapB =
     (if unionWeight wordsMapA wordsMapB > 0
      then intersectionWeight wordsMapA wordsMapB / unionWeight wordsMapA wordsMapB
      else 0)"

subsection \<open>Phrase matches\<close>

text \<open>
  Characters are bytes here, so \<^verbatim>\<open>\s\<close> is the whitespace below code 256: tab, line
  feed, vertical tab, form feed, carriage return, space and no-break space.
\<close>

definition isWhitespace :: "char \<Rightarrow> bool" where
  "isWhitespace c = ((of_char c :: nat) \<in> set [9, 10, 11, 12, 13, 32, 160])"

function collapseWhitespace :: "string \<Rightarrow> string" where
  "collapseWhitespace [] = []"
| "collapseWhitespace (c # cs) =
     (if isWhitespace c then CHR '' '' # collapseWhitespace (dropWhile isWhitespace cs)
      else c # collapseWhitespace cs)"
  by pat_completeness auto
termination
  by (relation "measure length") (auto simp: length_dropWhile_le less_Suc_eq_le)

definition trim :: "string \<Rightarrow> string" where
  "trim s = rev (dropWhile isWhitespace (rev (dropWhile isWhitespace s)))"

fun splitOn :: "char \<Rightarrow> string \<Rightarrow> string list" where
  "splitOn sep [] = [[]]"
| "splitOn sep (c # cs) =
     (if c = sep then [] # splitOn sep cs
      else (case splitOn sep cs of [] \<Rightarrow> [[c]] | w # ws \<Rightarrow> (c # w) # ws))"

fun joinWith :: "string \<Rightarrow> string list \<Rightarrow> string" where
  "joinWith sep [] = []"
| "joinWith sep [w] = w"
| "joinWith sep (w # ws) = w @ sep @ joinWith sep ws"

definition phrasesOf :: "nat \<Rightarrow> string list \<Rightarrow> string list" where
  "phrasesOf phraseLength ws =
     map (\<lambda>i. joinWith '' '' (take phraseLength (drop i ws)))
         [0..<Suc (length ws - phraseLength)]"

text \<open>
  The loop state of \<open>calculatePhraseMatches\<close> is the triple
  \<open>(maxPhraseLength, totalPhraseMatches, weightedPhraseScore)\<close>.
\<close>

definition phraseStep ::
  "string list \<Rightarrow> string list \<Rightarrow> nat \<times> nat \<times> real \<Rightarrow> nat \<Rightarrow> nat \<times> nat \<times> real" where
  "phraseStep wordsA wordsB st phraseLength =
     (let phrasesA = phrasesOf phraseLength wordsA
      in foldl (\<lambda>(maxPhraseLength, totalPhraseMatches, weightedPhraseScore) phrase.
                  if phrase \<in> set phrasesA
                  then (max maxPhraseLength phraseLength, totalPhraseMatches + 1,
                        weightedPhraseScore + real phraseLength * 0.1)
                  else (maxPhraseLength, totalPhraseMatches, weightedPhraseScore))
               st (phrasesOf phraseLength wordsB))"

definition calculatePhraseMatches :: "string \<Rightarrow> string \<Rightarrow> real" where
  "calculatePhraseMatches textA textB =
     (if textA = [] \<or> textB = [] then 0
      else let wordsA = splitOn CHR '' '' (trim (collapseWhitespace textA));
               wordsB = splitOn CHR '' '' (trim (collapseWhitespace textB))
           in if length wordsA < 2 \<or> length wordsB < 2 then 0
              else (case foldl (phraseStep wordsA wordsB) (0, 0, 0)
                           [2..<Suc (min 6 (min (length wordsA) (length wordsB)))] of
                      (maxPhraseLength, totalPhraseMatches, weightedPhraseScore) \<Rightarrow>
                        min 1 (if totalPhraseMatches > 0
                               then weightedPhraseScore + real maxPhraseLength * 0.1
                               else 0)))"

subsection \<open>Fuzzy matches\<close>

text \<open>
  \<open>levenshteinDistance\<close> fills its matrix row by row. \<open>fillRow\<close> computes the cells
  \<open>matrix[i][1..]\<close> of one row from the row above (\<open>prev\<close>) and the cell to the left.
\<close>

fun fillRow :: "char \<Rightarrow> string \<Rightarrow> nat list \<Rightarrow> nat \<Rightarrow> nat list" where
  "fillRow ca (cb # bs) (diag # up # prev) left =
     (let cost = (if ca = cb then 0 else 1);
          v = min (up + 1) (min (left + 1) (diag + cost))
      in v # fillRow ca bs (up # prev) v)"
| "fillRow ca bs prev left = []"

definition nextRow :: "string \<Rightarrow> nat list \<Rightarrow> char \<Rightarrow> nat list" where
  "nextRow b prev ca = (let first = hd prev + 1 in first # fillRow ca b prev first)"

definition levenshteinDistance :: "string \<Rightarrow> string \<Rightarrow> nat" where
  "levenshteinDistance a b = last (foldl (nextRow b) [0..<Suc (length b)] a)"

text \<open>
  The state of the double loop of \<open>calculateFuzzyMatches\<close> is the running score and the
  set \<open>processedPairs\<close> of keys \<^verbatim>\<open>wordA:wordB\<close>.
\<close>

definition fuzzyInner ::
  "string \<Rightarrow> wordInfo \<Rightarrow> real \<times> string list \<Rightarrow> string \<times> wordInfo \<Rightarrow> real \<times> string list" where
  "fuzzyInner wordA infoA st entryB =
     (case st of (fuzzyMatchScore, processedPairs) \<Rightarrow>
      case entryB of (wordB, infoB) \<Rightarrow>
        if length wordB < 4 then st
        else if wordA = wordB then st
        else let pairKey = wordA @ '':'' @ wordB
             in if pairKey \<in> set processedPairs then st
                else let distance = levenshteinDistance wordA wordB;
                         maxLength = max (length wordA) (length wordB);
                         similarity = 1 - real distance / real maxLength
                     in if similarity > 0.75
                        then (fuzzyMatchScore
                                + similarity * confidence' infoA * confidence' infoB
                                    * calculateWordImportance wordA,
                              pairKey # processedPairs)
                        else (fuzzyMatchScore, pairKey # processedPairs))"

definition fuzzyOuter ::
  "wordsMap \<Rightarrow> real \<times> string list \<Rightarrow> string \<times> wordInfo \<Rightarrow> real \<times> string list" where
  "fuzzyOuter wordsMapB st entryA =
     (case entryA of (wordA, infoA) \<Rightarrow>
        if length wordA < 4 then st else foldl (fuzzyInner wordA infoA) st wordsMapB)"

definition calculateFuzzyMatches :: "wordsMap \<Rightarrow> wordsMap \<Rightarrow> real" where
  "calculateFuzzyMatches wordsMapA wordsMapB =
     (let fuzzyMatchScore = fst (foldl (fuzzyOuter wordsMapB) (0, []) wordsMapA)
      in min 1 (fuzzyMatchScore / max 1 (real (length wordsMapA))))"

definition calculateTextSimilarity :: "textContent \<Rightarrow> textContent \<Rightarrow> real" where
  "calculateTextSimilarity textA textB =
     (if text textA = [] \<or> text textB = [] \<or> words textA = [] \<or> words textB = [] then 0
      else let wordsMapA = buildWordsMap (words textA);
               wordsMapB = buildWordsMap (words textB);
               phraseBonus = calculatePhraseMatches (text textA) (text textB);
               fuzzyMatchScore = calculateFuzzyMatches wordsMapA wordsMapB
           in weightedJaccardSim wordsMapA wordsMapB * 0.5 + phraseBonus * 0.3
                + fuzzyMatchScore * 0.2)"

section \<open>Visual properties and image characteristics\<close>

text \<open>
  Each of the four terms of \<open>visualPropertiesSimilarity\<close> is the same conditional
  expression on one field: \<^verbatim>\<open>a && b ? 1 - Math.abs(a - b) : 0.5\<close>, where a field that
  is absent or \<open>0\<close> is falsy.
\<close>

definition fieldSim :: "real option \<Rightarrow> real option \<Rightarrow> real" where
  "fieldSim a b =
     (case (a, b) of
        (Some x, Some y) \<Rightarrow> if x \<noteq> 0 \<and> y \<noteq> 0 then 1 - \<bar>x - y\<bar> else 0.5
      | _ \<Rightarrow> 0.5)"

definition visualPropertiesSimilarity :: "metadata option \<Rightarrow> metadata option \<Rightarrow> real" where
  "visualPropertiesSimilarity propsA propsB =
     (case (propsA, propsB) of
        (Some pA, Some pB) \<Rightarrow>
          let brightnessSim = fieldSim (brightness pA) (brightness pB);
              contrastSim = fieldSim (contrast pA) (contrast pB);
              entropySim = fieldSim (colorEntropy pA) (colorEntropy pB);
              edgeSim = fieldSim (edgeDensity pA) (edgeDensity pB)
          in brightnessSim * 0.3 + contrastSim * 0.2 + entropySim * 0.25 + edgeSim * 0.25
      | _ \<Rightarrow> 0.5)"

record characteristics =
  isTextHeavy :: bool
  isColorful :: bool
  isHighContrast :: bool
  isDetailed :: bool

definition exceeds :: "real option \<Rightarrow> real \<Rightarrow> bool" where
  "exceeds v bound = (truthy v \<and> (case v of None \<Rightarrow> False | Some x \<Rightarrow> x > bound))"

definition analyzeImageCharacteristics :: "imageRecord \<Rightarrow> metadata \<Rightarrow> characteristics" where
  "analyzeImageCharacteristics img queryMetadata =
     \<lparr>isTextHeavy =
        (case textContent img of
           None \<Rightarrow> False
         | Some tc \<Rightarrow> text tc \<noteq> [] \<and> length (words tc) > 5 \<and> confidence tc > 0.6),
      isColorful =
        (case metadata img of None \<Rightarrow> False | Some m \<Rightarrow> exceeds (colorEntropy m) 0.7),
      isHighContrast =
        (case metadata img of None \<Rightarrow> False | Some m \<Rightarrow> exceeds (contrast m) 0.6),
      isDetailed =
        (case metadata img of None \<Rightarrow> False | Some m \<Rightarrow> exceeds (edgeDensity m) 0.5)\<rparr>"

section \<open>Adaptive weights\<close>

text \<open>
  The weight object and the metrics object of a scored record have the same six fields.
\<close>

record perMetric =
  cosine :: real
  euclidean :: real
  manhattan :: real
  color :: real
  visualProps :: real
  text' :: real

text \<open>
  \<open>adjustedWeights\<close> is the value of the variable \<open>weights\<close> of \<open>getAdaptiveWeights\<close>
  when the normalisation starts; \<open>totalWeight\<close> is the sum the source computes with
  \<^verbatim>\<open>Object.values(weights).reduce\<close>.
\<close>

definition adjustedWeights ::
  "characteristics \<Rightarrow> bool \<Rightarrow> real \<Rightarrow> real \<Rightarrow> real \<Rightarrow> real \<Rightarrow> perMetric" where
  "adjustedWeights chars hasSignificantText textSim cosSim euclideanSim colorSim =
     (let w0 = \<lparr>cosine = 0.3, euclidean = 0.25, manhattan = 0.15, color = 0.2,
                visualProps = 0.05, text' = 0.05\<rparr>;
          w1 = (if isTextHeavy chars \<or> hasSignificantText
                then (let textWeight = 0.2 + textSim * 0.3
                      in \<lparr>cosine = 0.25 - textWeight * 0.1,
                          euclidean = 0.2 - textWeight * 0.05,
                          manhattan = 0.1, color = 0.15, visualProps = 0.05,
                          text' = textWeight\<rparr>)
                else w0);
          w2 = (if isColorful chars
                then w1\<lparr>color := min 0.3 (color w1 * 1.5), cosine := cosine w1 - 0.05\<rparr>
                else w1);
          w3 = (if isDetailed chars
                then w2\<lparr>cosine := min 0.35 (cosine w2 * 1.2),
                        euclidean := min 0.3 (euclidean w2 * 1.2),
                        color := color w2 - 0.05\<rparr>
                else w2);
          w4 = (if cosSim > 0.8 then w3\<lparr>cosine := min 0.4 (cosine w3 * 1.2)\<rparr> else w3);
          w5 = (if colorSim > 0.8 then w4\<lparr>color := min 0.3 (color w4 * 1.2)\<rparr> else w4)
      in w5)"

definition totalWeight :: "perMetric \<Rightarrow> real" where
  "totalWeight w =
     cosine w + euclidean w + manhattan w + color w + visualProps w + text' w"

definition getAdaptiveWeights ::
  "characteristics \<Rightarrow> bool \<Rightarrow> real \<Rightarrow> real \<Rightarrow> real \<Rightarrow> real \<Rightarrow> perMetric" where
  "getAdaptiveWeights chars hasSignificantText textSim cosSim euclideanSim colorSim =
     (let weights = adjustedWeights chars hasSignificantText textSim cosSim euclideanSim colorSim;
          total = totalWeight weights
      in \<lparr>cosine = cosine weights / total,
          euclidean = euclidean weights / total,
          manhattan = manhattan weights / total,
          color = color weights / total,
          visualProps = visualProps weights / total,
          text' = text' weights / total\<rparr>)"

section \<open>Scoring the records\<close>

record scoredRecord = imageRecord +
  similarity :: real
  metrics :: perMetric
  hasSignificantText :: bool
  characteristics :: characteristics

text \<open>
  \<open>scoreImage\<close> is the function mapped over a batch in \<open>calculateSimilarities\<close>. A
  vector of another length makes the vector metrics throw; the exception is the \<open>Inl\<close>
  result. The query's \<open>textContent\<close> is optional.
\<close>

definition scoreImage ::
  "real list \<Rightarrow> metadata \<Rightarrow> textContent option \<Rightarrow> imageRecord \<Rightarrow> error + scoredRecord" where
  "scoreImage embedding' queryMetadata textContent' img =
     (case cosineSimilarity embedding' (embedding img) of
        Inl e \<Rightarrow> Inl e
      | Inr cosSim \<Rightarrow>
     (case euclideanDistance embedding' (embedding img) of
        Inl e \<Rightarrow> Inl e
      | Inr euclideanDist \<Rightarrow>
     (case manhattanDistance embedding' (embedding img) of
        Inl e \<Rightarrow> Inl e
      | Inr manhattanDist \<Rightarrow>
       (let maxPossibleDist = sqrt 2;
            euclideanSim = 1 - euclideanDist / maxPossibleDist;
            manhattanSim = 1 - manhattanDist / (2 * real (length embedding'));
            colorSim =
              (case metadata img of
                 None \<Rightarrow> 0.5
               | Some m \<Rightarrow>
                  (case dominantColors m of
                     None \<Rightarrow> 0.5
                   | Some cs \<Rightarrow> colorSimilarity (dominantColors queryMetadata) (Some cs)));
            visualPropsSim = visualPropertiesSimilarity (Some queryMetadata) (metadata img);
            textSim =
              (case (textContent', textContent img) of
                 (Some tq, Some ti) \<Rightarrow>
                   if text tq \<noteq> [] \<and> text ti \<noteq> [] then calculateTextSimilarity tq ti else 0
               | _ \<Rightarrow> 0);
            hasSignificantText' =
              (case (textContent', textContent img) of
                 (Some tq, Some ti) \<Rightarrow>
                   length (words tq) > 3 \<and> length (words ti) > 3 \<and> textSim > 0.2
               | _ \<Rightarrow> False);
            imageCharacteristics = analyzeImageCharacteristics img queryMetadata;
            weights = getAdaptiveWeights imageCharacteristics hasSignificantText'
                        textSim cosSim euclideanSim colorSim;
            p1 = (if cosSim < 0.4 \<and> euclideanSim < 0.4 then 1.0 * 0.8 else 1.0);
            p2 = (if colorSim < 0.3 then p1 * 0.9 else p1);
            penaltyFactor = (if hasSignificantText' \<and> textSim < 0.2 then p2 * 0.85 else p2);
            combinedSim =
              (cosSim * cosine weights + euclideanSim * euclidean weights
                 + manhattanSim * manhattan weights + colorSim * color weights
                 + visualPropsSim * visualProps weights + textSim * text' weights)
              * penaltyFactor
        in Inr (imageRecord.extend img
                  (scoredRecord.fields combinedSim
                     \<lparr>cosine = cosSim, euclidean = euclideanSim, manhattan = manhattanSim,
                      color = colorSim, visualProps = visualPropsSim, text' = textSim\<rparr>
                     hasSignificantText' imageCharacteristics))))))"

fun mapResult :: "('a \<Rightarrow> error + 'b) \<Rightarrow> 'a list \<Rightarrow> error + 'b list" where
  "mapResult f [] = Inr []"
| "mapResult f (x # xs) =
     (case f x of
        Inl e \<Rightarrow> Inl e
      | Inr y \<Rightarrow> (case mapResult f xs of Inl e \<Rightarrow> Inl e | Inr ys \<Rightarrow> Inr (y # ys)))"

definition BATCH_SIZE :: nat where
  "BATCH_SIZE = 20"

text \<open>
  The loop of \<open>calculateSimilarities\<close>: \<open>i\<close> advances by \<open>BATCH_SIZE\<close>, each batch is
  scored and appended to \<open>results\<close>.
\<close>

function calculateSimilaritiesFrom ::
  "nat \<Rightarrow> scoredRecord list \<Rightarrow> imageRecord list \<Rightarrow> real list \<Rightarrow> metadata
     \<Rightarrow> textContent option \<Rightarrow> error + scoredRecord list" where
  "calculateSimilaritiesFrom i results images embedding' queryMetadata textContent' =
     (if i < length images
      then (let batch = take BATCH_SIZE (drop i images)
            in case mapResult (scoreImage embedding' queryMetadata textContent') batch of
                 Inl e \<Rightarrow> Inl e
               | Inr batchResults \<Rightarrow>
                   calculateSimilaritiesFrom (i + BATCH_SIZE) (results @ batchResults)
                     images embedding' queryMetadata textContent')
      else Inr results)"
  by pat_completeness auto
termination
  by (relation "measure (\<lambda>(i, results, images, rest). length images - i)")
     (auto simp: BATCH_SIZE_def)

declare calculateSimilaritiesFrom.simps [simp del]

definition calculateSimilarities ::
  "imageRecord list \<Rightarrow> real list \<Rightarrow> metadata \<Rightarrow> textContent option
     \<Rightarrow> error + scoredRecord list" where
  "calculateSimilarities images embedding' queryMetadata textContent' =
     calculateSimilaritiesFrom 0 [] images embedding' queryMetadata textContent'"

section \<open>Distribution analysis and threshold\<close>

text \<open>
  \<^verbatim>\<open>sort((a, b) => b - a)\<close> is a stable sort into descending order. The indices
  \<^verbatim>\<open>Math.floor(n / 2)\<close>, \<^verbatim>\<open>Math.floor(n * 0.25)\<close> and \<^verbatim>\<open>Math.floor(n * 0.75)\<close> are
  \<open>n div 2\<close>, \<open>n div 4\<close> and \<open>3 * n div 4\<close>; all three are below \<open>n\<close> when the list
  is not empty.
\<close>

definition sortDescending :: "real list \<Rightarrow> real list" where
  "sortDescending xs = sort_key uminus xs"

record distributionStats =
  mean :: real
  stdDev :: real
  median :: real
  quartiles :: "real \<times> real \<times> real"
  gaps :: "real list"

definition analyzeDistribution :: "real list \<Rightarrow> distributionStats" where
  "analyzeDistribution scores =
     (if scores = []
      then \<lparr>mean = 0, stdDev = 0, median = 0, quartiles = (0, 0, 0), gaps = []\<rparr>
      else let n = length scores;
               mean' = sum_list scores / real n;
               variance = (\<Sum>score\<leftarrow>scores. (score - mean')\<^sup>2) / real n;
               sortedScores = sortDescending scores;
               median' = sortedScores ! (n div 2);
               q1 = sortedScores ! (n div 4);
               q3 = sortedScores ! (3 * n div 4);
               gaps' = map (\<lambda>i. sortedScores ! i - sortedScores ! (i + 1)) [0..<n - 1]
           in \<lparr>mean = mean', stdDev = sqrt variance, median = median',
               quartiles = (q1, median', q3), gaps = take 3 (sortDescending gaps')\<rparr>)"

fun findGapIndexFrom :: "nat \<Rightarrow> real list \<Rightarrow> real \<Rightarrow> int" where
  "findGapIndexFrom i (x # y # rest) targetGap =
     (if \<bar>x - y - targetGap\<bar> < 0.001 then int i
      else findGapIndexFrom (Suc i) (y # rest) targetGap)"
| "findGapIndexFrom i rest targetGap = - 1"

definition findGapIndex :: "real list \<Rightarrow> real \<Rightarrow> int" where
  "findGapIndex scores targetGap = findGapIndexFrom 0 scores targetGap"

text \<open>
  \<open>determineOptimalThreshold\<close> updates its variable \<open>threshold\<close> in four
  consecutive \<^verbatim>\<open>if\<close> blocks. Each block is a function from the value of \<open>threshold\<close>
  before the block to its value after it.
\<close>

definition gapBlock :: "scoredRecord list \<Rightarrow> distributionStats \<Rightarrow> real \<Rightarrow> real" where
  "gapBlock results stats threshold =
     (case gaps stats of
        [] \<Rightarrow> threshold
      | g # _ \<Rightarrow>
         if g > 0.1
         then let gapIndex = findGapIndex (map similarity results) g
              in if gapIndex > 0 \<and> gapIndex < int (length results) - 1
                 then let gapMidpoint =
                            (similarity (results ! nat gapIndex)
                               + similarity (results ! (nat gapIndex + 1))) / 2
                      in max threshold gapMidpoint
                 else threshold
         else threshold)"

definition quartileBlock :: "distributionStats \<Rightarrow> real \<Rightarrow> real" where
  "quartileBlock stats threshold =
     (case quartiles stats of
        (q1, q2, q3) \<Rightarrow> if q1 - q3 > 0.2 then max threshold q3 else threshold)"

definition topResultBlock :: "scoredRecord list \<Rightarrow> real \<Rightarrow> real" where
  "topResultBlock results threshold =
     (if similarity (results ! 0) > 0.8 \<and> length results > 1
         \<and> similarity (results ! 0) - similarity (results ! 1) > 0.2
      then max threshold (similarity (results ! 0) * 0.8)
      else threshold)"

definition hasTextMatches :: "scoredRecord list \<Rightarrow> bool" where
  "hasTextMatches results = list_ex (\<lambda>r. text' (metrics r) > 0.5) results"

definition textBlock :: "scoredRecord list \<Rightarrow> real \<Rightarrow> real" where
  "textBlock results threshold =
     (if hasTextMatches results then max 0.4 (threshold * 0.9) else threshold)"

definition determineOptimalThreshold :: "scoredRecord list \<Rightarrow> distributionStats \<Rightarrow> real" where
  "determineOptimalThreshold results stats =
     (let threshold =
            (if length results \<ge> 3
             then textBlock results
                    (topResultBlock results
                       (quartileBlock stats (gapBlock results stats 0.45)))
             else 0.45)
      in min (max 0.4 threshold) 0.85)"

section \<open>Search\<close>

text \<open>
  \<open>searchImagesByEmbedding\<close> reads the whole store (\<open>images\<close>, the result of
  \<open>getAll\<close>) and calls \<open>extractImageMetadata\<close>, which decodes an image in the browser
  and is a parameter here (\<open>extract\<close>, from a data URL to the metadata it resolves to).
  \<open>searchQueryMetadata\<close> is the variable \<open>queryMetadata\<close> of the search. The search
  writes the threshold to the console; \<open>searchWithThreshold\<close> returns it with the results
  (\<open>None\<close> when the store is empty and no threshold is computed).
\<close>

definition searchQueryMetadata :: "(string \<Rightarrow> metadata) \<Rightarrow> imageRecord list \<Rightarrow> metadata" where
  "searchQueryMetadata extract images = extract (dataUrl (images ! 0))"

definition searchWithThreshold ::
  "(string \<Rightarrow> metadata) \<Rightarrow> imageRecord list \<Rightarrow> real list \<Rightarrow> textContent option
     \<Rightarrow> error + (real option \<times> scoredRecord list)" where
  "searchWithThreshold extract images embedding' textContent' =
     (if length images = 0 then Inr (None, [])
      else let queryMetadata = searchQueryMetadata extract images
           in case calculateSimilarities images embedding' queryMetadata textContent' of
                Inl e \<Rightarrow> Inl e
              | Inr scored \<Rightarrow>
                 (let results = sort_key (\<lambda>r. - similarity r) scored;
                      similarityStats = analyzeDistribution (map similarity results);
                      threshold = determineOptimalThreshold results similarityStats;
                      filteredResults = filter (\<lambda>img. similarity img > threshold) results
                  in Inr (Some threshold, take 15 filteredResults)))"

definition searchImagesByEmbedding ::
  "(string \<Rightarrow> metadata) \<Rightarrow> imageRecord list \<Rightarrow> real list \<Rightarrow> textContent option
     \<Rightarrow> error + scoredRecord list" where
  "searchImagesByEmbedding extract images embedding' textContent' =
     (case searchWithThreshold extract images embedding' textContent' of
        Inl e \<Rightarrow> Inl e
      | Inr (threshold, returned) \<Rightarrow> Inr returned)"

section \<open>Confidences of the data model\<close>

text \<open>
  The OCR producer divides its confidences by 100, and \<open>addWord\<close> keeps the largest
  confidence of a word: the confidences of a word map built from confidences between
  \<open>0\<close> and \<open>1\<close> lie between \<open>0\<close> and \<open>1\<close>.
\<close>

definition confidencesInRange :: "wordsMap \<Rightarrow> bool" where
  "confidencesInRange m = list_all (\<lambda>(w, info). 0 \<le> confidence' info \<and> confidence' info \<le> 1) m"

section \<open>Sample inputs\<close>

text \<open>
  The OCR result of the scenario of the specification: the text \<^verbatim>\<open>hello world\<close> with
  the words \<^verbatim>\<open>hello\<close> and \<^verbatim>\<open>world\<close>, each of confidence \<open>0.9\<close>.
\<close>

definition helloWorld :: textContent where
  "helloWorld =
     \<lparr>text = ''hello world'', confidence = 0.9,
      words = [\<lparr>text = ''hello'', confidence = 0.9\<rparr>, \<lparr>text = ''world'', confidence = 0.9\<rparr>]\<rparr>"

text \<open>
  The metadata \<open>extractImageMetadata\<close> resolves to when the image cannot be read (the
  object \<^verbatim>\<open>{}\<close>), and a stored record whose unit-length embedding is the opposite of
  the unit-length query embedding \<open>[1, 0]\<close>.
\<close>

definition emptyMetadata :: metadata where
  "emptyMetadata =
     \<lparr>dominantColors = None, brightness = None, contrast = None,
      colorEntropy = None, edgeDensity = None\<rparr>"

definition oppositeImage :: imageRecord where
  "oppositeImage =
     \<lparr>id' = ''1'', dataUrl = ''data:opposite'', embedding = [- 1, 0], timestamp = ''t1'',
      metadata = None, textContent = None\<rparr>"

text \<open>
  A metadata extraction that tells a stored image (\<^verbatim>\<open>data:stored\<close>) from every other
  image, a query image among them, by its colours and brightness; and a record stored with
  the metadata of its own image, as \<open>storeImage\<close> stores it.
\<close>

definition sampleExtract :: "string \<Rightarrow> metadata" where
  "sampleExtract url =
     (if url = ''data:stored''
      then \<lparr>dominantColors = Some [''rgb(40,40,40)''], brightness = Some 0.2,
            contrast = Some 0.5, colorEntropy = Some 0.3, edgeDensity = Some 0.4\<rparr>
      else \<lparr>dominantColors = Some [''rgb(240,240,240)''], brightness = Some 0.9,
            contrast = Some 0.5, colorEntropy = Some 0.3, edgeDensity = Some 0.4\<rparr>)"

definition storedImage :: imageRecord where
  "storedImage =
     \<lparr>id' = ''2'', dataUrl = ''data:stored'', embedding = [1, 0], timestamp = ''t2'',
      metadata = Some (sampleExtract ''data:stored''), textContent = None\<rparr>"

text \<open>
  Scored results with a given similarity and text metric, and three batches sorted by
  descending similarity: one with a text match, one whose largest gap is between the first
  two results, one with neither.
\<close>

definition sampleScored :: "real \<Rightarrow> real \<Rightarrow> scoredRecord" where
  "sampleScored s t =
     \<lparr>id' = ''0'', dataUrl = ''data:sample'', embedding = [1, 0], timestamp = ''t0'',
      metadata = None, textContent = None,
      similarity = s,
      metrics = \<lparr>cosine = s, euclidean = s, manhattan = s, color = 0.5, visualProps = 0.5,
                 text' = t\<rparr>,
      hasSignificantText = False,
      characteristics = \<lparr>isTextHeavy = False, isColorful = False, isHighContrast = False,
                          isDetailed = False\<rparr>\<rparr>"

definition textBatch :: "scoredRecord list" where
  "textBatch = [sampleScored 0.9 0.6, sampleScored 0.8 0, sampleScored 0.5 0]"

definition leadingGapBatch :: "scoredRecord list" where
  "leadingGapBatch = [sampleScored 0.7 0, sampleScored 0.5 0, sampleScored 0.5 0]"

definition plainBatch :: "scoredRecord list" where
  "plainBatch = [sampleScored 0.9 0, sampleScored 0.8 0, sampleScored 0.5 0]"

section \<open>Properties of the colour comparator\<close>

lemma matchAt_rgbRegex: "matchAt rgbRegex s = None"
  by (simp add: rgbRegex_def split: list.splits)

lemma searchRe_rgbRegex: "searchRe rgbRegex s = None"
proof (induction s)
  case Nil
  show ?case by (subst searchRe.simps) (simp add: matchAt_rgbRegex)
next
  case (Cons c s)
  then show ?case by (subst searchRe.simps) (simp add: matchAt_rgbRegex)
qed

lemma parseRgb_zero: "parseRgb s = (0, 0, 0)"
  unfolding parseRgb_def by (simp only: searchRe_rgbRegex option.case)

lemma colorDistance_zero: "colorDistance c1 c2 = 0"
  by (simp add: colorDistance_def parseRgb_zero)

lemma foldl_min_zero:
  "foldl (\<lambda>best colorB. min best (0::real)) x bs = (if bs = [] then x else min x 0)"
  by (induction bs arbitrary: x) auto

lemma bestMatch_zero: "bs \<noteq> [] \<Longrightarrow> bestMatch a bs = 0"
  by (simp add: bestMatch_def colorDistance_zero foldl_min_zero)

lemma quantize_samples:
  "quantize 255 = 240" "quantize 128 = 120" "quantize 20 = 40" "quantize 0 = 0"
  "quantize 40 = 40"
  by (simp_all add: quantize_def round_def)

lemma colorSimilarity_one:
  assumes "cA \<noteq> []" "cB \<noteq> []"
  shows "colorSimilarity (Some cA) (Some cB) = 1"
proof -
  have nb: "take 3 cB \<noteq> []" using assms by (cases cB) auto
  have na: "take 3 cA \<noteq> []" using assms by (cases cA) auto
  have "(\<Sum>colorA\<leftarrow>take 3 cA. 1 - bestMatch colorA (take 3 cB)) = real (length (take 3 cA))"
    by (simp add: bestMatch_zero [OF nb] sum_list_triv)
  with na assms show ?thesis by (simp add: colorSimilarity_def Let_def del: length_take)
qed

text \<open>
  Claim C2. The pattern of \<open>parseRgb\<close> asks for the end of the input right after
  \<^verbatim>\<open>rgb\<close> and for a digit after that, so it matches no string. Every colour string
  written by the metadata extraction therefore parses to \<open>(0, 0, 0)\<close>, every colour
  distance is \<open>0\<close>, and \<open>colorSimilarity\<close> of two non-empty lists of such strings is
  exactly \<open>1\<close>.
\<close>

theorem colorSimilarity_rgb_strings:
  "parseRgb (rgbString p) = (0, 0, 0)
   \<and> colorDistance (rgbString p) (rgbString q) = 0
   \<and> (pixelsA \<noteq> [] \<and> pixelsB \<noteq> []
        \<longrightarrow> colorSimilarity (Some (map rgbString pixelsA)) (Some (map rgbString pixelsB)) = 1)"
  by (simp add: parseRgb_zero colorDistance_zero colorSimilarity_one)

theorem colorSimilarity_rgb_strings_witness:
  "rgbString (255, 128, 20) = ''rgb(240,120,40)''
   \<and> colorSimilarity (Some [rgbString (255, 128, 20)])
         (Some [rgbString (0, 0, 0), rgbString (40, 40, 40)]) = 1"
proof -
  have a: "rgbString (255, 128, 20) = ''rgb(240,120,40)''"
    by (simp add: rgbString_def colorKey_def quantize_samples)
  have "colorSimilarity (Some (map rgbString [(255, 128, 20)]))
         (Some (map rgbString [(0, 0, 0), (40, 40, 40)])) = 1"
    using colorSimilarity_rgb_strings [of "(255, 128, 20)" "(0, 0, 0)" "[(255, 128, 20)]"
        "[(0, 0, 0), (40, 40, 40)]"] by blast
  then show ?thesis using a by (simp only: list.map)
qed

text \<open>
  Claim C9. \<open>colorSimilarity\<close> returns exactly \<open>0.5\<close> whenever one of the two colour
  lists is missing or empty, whatever the other list holds.
\<close>

theorem colorSimilarity_neutral:
  "colorsA = None \<or> colorsB = None \<or> colorsA = Some [] \<or> colorsB = Some []
     \<Longrightarrow> colorSimilarity colorsA colorsB = 0.5"
  by (auto simp: colorSimilarity_def split: option.splits)

theorem colorSimilarity_neutral_witness:
  "colorSimilarity (Some []) (Some [''rgb(240,0,0)'']) = 0.5
   \<and> colorSimilarity (Some [''rgb(240,0,0)'', ''rgb(0,40,80)'']) None = 0.5"
  using colorSimilarity_neutral [of "Some []" "Some [''rgb(240,0,0)'']"]
        colorSimilarity_neutral [of "Some [''rgb(240,0,0)'', ''rgb(0,40,80)'']" None]
  by blast

section \<open>Properties of the threshold selector\<close>

text \<open>
  Claim C8. Whatever the batch of scored results and the distribution statistics are (in
  particular for every nonempty batch and its own statistics), the threshold returned by
  \<open>determineOptimalThreshold\<close> lies in the closed interval from \<open>0.4\<close> to \<open>0.85\<close>.
\<close>

theorem threshold_range:
  "0.4 \<le> determineOptimalThreshold results stats
   \<and> determineOptimalThreshold results stats \<le> 0.85"
  unfolding determineOptimalThreshold_def Let_def by simp

section \<open>Properties of the text similarity engine\<close>

text \<open>
  Claim C3, as stated, fails: on two identical OCR inputs \<^verbatim>\<open>hello world\<close> with both
  words at confidence \<open>0.9\<close> the weighted Jaccard component is not \<open>1\<close>. The
  intersection weighs a shared word by the product of the two confidences
  (\<open>0.9 * 0.9\<close>), the union by the confidence of one side (\<open>0.9\<close>).
\<close>

theorem jaccard_identical_not_one:
  "weightedJaccardSim (buildWordsMap (words helloWorld)) (buildWordsMap (words helloWorld)) \<noteq> 1"
  by code_simp

text \<open>
  Claim C3, amended. On that input the weighted Jaccard component is \<open>0.9\<close>, the fuzzy
  component is \<open>0\<close>, the phrase bonus is \<open>0.4\<close> (one matching phrase of length 2:
  \<open>0.1 * 2\<close> for the match plus \<open>0.1 * 2\<close> for the longest length), and the combined
  text similarity is \<open>0.5 * 0.9 + 0.3 * 0.4 + 0.2 * 0 = 0.57\<close>.
\<close>

theorem text_similarity_hello_world:
  "weightedJaccardSim (buildWordsMap (words helloWorld)) (buildWordsMap (words helloWorld)) = 9 / 10
   \<and> calculateFuzzyMatches (buildWordsMap (words helloWorld)) (buildWordsMap (words helloWorld)) = 0
   \<and> calculatePhraseMatches (text helloWorld) (text helloWorld) = 4 / 10
   \<and> calculateTextSimilarity helloWorld helloWorld = 57 / 100"
  by code_simp

text \<open>
  For confidences between \<open>0\<close> and \<open>1\<close> the three components of the text similarity,
  and the text similarity itself, lie between \<open>0\<close> and \<open>1\<close>.
\<close>

lemma calculateWordImportance_nonneg: "0 \<le> calculateWordImportance word"
  by (simp add: calculateWordImportance_def Let_def)

lemma set_AList_update:
  "set (AList.update k v m) \<subseteq> insert (k, v) (set m)"
  by (induction m) auto

lemma confidencesInRange_update:
  assumes "confidencesInRange m" "0 \<le> confidence' v" "confidence' v \<le> 1"
  shows "confidencesInRange (AList.update k v m)"
  using assms set_AList_update [of k v m]
  unfolding confidencesInRange_def list_all_iff by blast

lemma addWord_range:
  assumes "confidencesInRange m" "0 \<le> confidence w" "confidence w \<le> 1"
  shows "confidencesInRange (addWord m w)"
proof (cases "map_of m (text w)")
  case None
  with assms show ?thesis by (simp add: addWord_def confidencesInRange_def Let_def)
next
  case (Some existing)
  then have "(text w, existing) \<in> set m" by (rule map_of_SomeD)
  with assms(1) have ex: "0 \<le> confidence' existing" "confidence' existing \<le> 1"
    by (auto simp: confidencesInRange_def list_all_iff)
  let ?v = "\<lparr>confidence' = max (confidence' existing) (confidence w),
            count = count existing + 1\<rparr>"
  have "confidencesInRange (AList.update (text w) ?v m)"
    using assms ex by (intro confidencesInRange_update) (simp_all add: max_def)
  with assms(1) Some show ?thesis by (simp add: addWord_def Let_def)
qed

lemma foldl_addWord_range:
  assumes "confidencesInRange m" "\<And>w. w \<in> set ws \<Longrightarrow> 0 \<le> confidence w \<and> confidence w \<le> 1"
  shows "confidencesInRange (foldl addWord m ws)"
  using assms by (induction ws arbitrary: m) (simp_all add: addWord_range)

lemma buildWordsMap_range:
  assumes "\<And>w. w \<in> set ws \<Longrightarrow> 0 \<le> confidence w \<and> confidence w \<le> 1"
  shows "confidencesInRange (buildWordsMap ws)"
  unfolding buildWordsMap_def
  by (rule foldl_addWord_range) (simp_all add: confidencesInRange_def assms)


lemma sum_list_mono_nonneg:
  fixes f g :: "'a \<Rightarrow> real"
  assumes "\<And>x. x \<in> set xs \<Longrightarrow> 0 \<le> f x \<and> f x \<le> g x"
  shows "0 \<le> sum_list (map f xs) \<and> sum_list (map f xs) \<le> sum_list (map g xs)"
  using assms by (induction xs) (auto intro: add_mono add_nonneg_nonneg)

lemma intersection_le_union:
  assumes a: "confidencesInRange wordsMapA" and b: "confidencesInRange wordsMapB"
  shows "0 \<le> intersectionWeight wordsMapA wordsMapB
       \<and> intersectionWeight wordsMapA wordsMapB \<le> unionWeight wordsMapA wordsMapB"
proof -
  let ?f = "\<lambda>(word, infoA).
        (case map_of wordsMapB word of
           Some infoB \<Rightarrow>
             confidence' infoA * confidence' infoB
               * real (min (count infoA) (count infoB)) * calculateWordImportance word
         | None \<Rightarrow> 0)"
  let ?g = "\<lambda>(word, infoA). confidence' infoA * real (count infoA) * calculateWordImportance word"
  let ?h = "\<lambda>(word, infoB).
          if map_of wordsMapA word = None
          then confidence' infoB * real (count infoB) * calculateWordImportance word
          else 0"
  have tm: "0 \<le> ?f x \<and> ?f x \<le> ?g x" if "x \<in> set wordsMapA" for x
  proof -
    obtain word infoA where x: "x = (word, infoA)" by (cases x)
    with that a have ca: "0 \<le> confidence' infoA" "confidence' infoA \<le> 1"
      by (auto simp: confidencesInRange_def list_all_iff)
    have imp: "0 \<le> calculateWordImportance word" by (rule calculateWordImportance_nonneg)
    show ?thesis
    proof (cases "map_of wordsMapB word")
      case None
      with x ca imp show ?thesis by simp
    next
      case (Some infoB)
      then have "(word, infoB) \<in> set wordsMapB" by (rule map_of_SomeD)
      with b have cb: "0 \<le> confidence' infoB" "confidence' infoB \<le> 1"
        by (auto simp: confidencesInRange_def list_all_iff)
      have m: "real (min (count infoA) (count infoB)) \<le> real (count infoA)" by simp
      have "confidence' infoA * confidence' infoB \<le> confidence' infoA * 1"
        using ca cb by (intro mult_left_mono) auto
      then have "confidence' infoA * confidence' infoB * real (min (count infoA) (count infoB))
                   \<le> confidence' infoA * real (count infoA)"
        using m ca cb by (intro mult_mono) auto
      then have "confidence' infoA * confidence' infoB * real (min (count infoA) (count infoB))
                   * calculateWordImportance word
                 \<le> confidence' infoA * real (count infoA) * calculateWordImportance word"
        using imp by (rule mult_right_mono)
      moreover have "0 \<le> confidence' infoA * confidence' infoB
                   * real (min (count infoA) (count infoB)) * calculateWordImportance word"
        using ca cb imp by simp
      ultimately show ?thesis using x Some by simp
    qed
  qed
  have hterm: "0 \<le> ?h x \<and> ?h x \<le> ?h x" if "x \<in> set wordsMapB" for x
  proof -
    obtain word infoB where x: "x = (word, infoB)" by (cases x)
    with that b have "0 \<le> confidence' infoB"
      by (auto simp: confidencesInRange_def list_all_iff)
    with x show ?thesis by (simp add: calculateWordImportance_nonneg)
  qed
  from sum_list_mono_nonneg [of wordsMapA ?f ?g] tm
  have 1: "0 \<le> sum_list (map ?f wordsMapA)" "sum_list (map ?f wordsMapA) \<le> sum_list (map ?g wordsMapA)"
    by blast+
  from sum_list_mono_nonneg [of wordsMapB ?h ?h] hterm
  have 2: "0 \<le> sum_list (map ?h wordsMapB)" by blast
  from 1 2 show ?thesis
    unfolding intersectionWeight_def unionWeight_def by linarith
qed

lemma weightedJaccardSim_range:
  assumes "confidencesInRange wordsMapA" "confidencesInRange wordsMapB"
  shows "0 \<le> weightedJaccardSim wordsMapA wordsMapB \<and> weightedJaccardSim wordsMapA wordsMapB \<le> 1"
  using intersection_le_union [OF assms]
  by (simp add: weightedJaccardSim_def)


lemma foldl_invariant:
  assumes "P s" "\<And>s x. P s \<Longrightarrow> x \<in> set xs \<Longrightarrow> P (f s x)"
  shows "P (foldl f s xs)"
  using assms by (induction xs arbitrary: s) simp_all

lemma phraseStep_nonneg:
  assumes "0 \<le> snd (snd st)"
  shows "0 \<le> snd (snd (phraseStep wordsA wordsB st phraseLength))"
  unfolding phraseStep_def Let_def
  by (rule foldl_invariant [where P = "\<lambda>s. 0 \<le> snd (snd s)"])
     (use assms in \<open>auto split: prod.splits\<close>)

lemma phraseScore_range:
  fixes wordsA wordsB :: "string list"
  shows "0 \<le> (case foldl (phraseStep wordsA wordsB) (0, 0, 0) ns of
                 (maxPhraseLength, totalPhraseMatches, weightedPhraseScore) \<Rightarrow>
                   min 1 (if totalPhraseMatches > 0
                          then weightedPhraseScore + real maxPhraseLength * 0.1
                          else 0))
       \<and> (case foldl (phraseStep wordsA wordsB) (0, 0, 0) ns of
                 (maxPhraseLength, totalPhraseMatches, weightedPhraseScore) \<Rightarrow>
                   min 1 (if totalPhraseMatches > 0
                          then weightedPhraseScore + real maxPhraseLength * 0.1
                          else 0)) \<le> 1"
proof -
  obtain m t w where st: "foldl (phraseStep wordsA wordsB) (0, 0, 0) ns = (m, t, w)"
    by (cases "foldl (phraseStep wordsA wordsB) (0, 0, 0) ns") auto
  have "0 \<le> snd (snd (foldl (phraseStep wordsA wordsB) (0, 0, 0) ns))"
    by (rule foldl_invariant [where P = "\<lambda>s. 0 \<le> snd (snd s)"])
       (simp_all add: phraseStep_nonneg)
  with st have "0 \<le> w" by simp
  then show ?thesis unfolding st by simp
qed

lemma calculatePhraseMatches_range:
  "0 \<le> calculatePhraseMatches textA textB \<and> calculatePhraseMatches textA textB \<le> 1"
  unfolding calculatePhraseMatches_def Let_def
  using phraseScore_range by (simp del: upt_Suc)

lemma fuzzyInner_nonneg:
  assumes "0 \<le> fst st" "0 \<le> confidence' infoA" "0 \<le> confidence' (snd entryB)"
  shows "0 \<le> fst (fuzzyInner wordA infoA st entryB)"
  using assms
  by (auto simp: fuzzyInner_def Let_def calculateWordImportance_nonneg split: prod.splits)

lemma calculateFuzzyMatches_range:
  assumes a: "confidencesInRange wordsMapA" and b: "confidencesInRange wordsMapB"
  shows "0 \<le> calculateFuzzyMatches wordsMapA wordsMapB
       \<and> calculateFuzzyMatches wordsMapA wordsMapB \<le> 1"
proof -
  have inner: "0 \<le> fst (foldl (fuzzyInner wordA infoA) st wordsMapB)"
    if "0 \<le> fst st" "0 \<le> confidence' infoA" for wordA infoA st
  proof (rule foldl_invariant [where P = "\<lambda>s. 0 \<le> fst s"])
    show "0 \<le> fst st" by (rule that)
    fix s :: "real \<times> string list" and x :: "string \<times> wordInfo"
    assume "0 \<le> fst s" "x \<in> set wordsMapB"
    moreover from this b have "0 \<le> confidence' (snd x)"
      by (auto simp: confidencesInRange_def list_all_iff)
    ultimately show "0 \<le> fst (fuzzyInner wordA infoA s x)"
      using that(2) by (intro fuzzyInner_nonneg)
  qed
  have "0 \<le> fst (foldl (fuzzyOuter wordsMapB) (0, []) wordsMapA)"
  proof (rule foldl_invariant [where P = "\<lambda>s. 0 \<le> fst s"])
    show "0 \<le> fst ((0, []) :: real \<times> string list)" by simp
    fix s :: "real \<times> string list" and x :: "string \<times> wordInfo"
    assume s: "0 \<le> fst s" and x: "x \<in> set wordsMapA"
    obtain wordA infoA where xa: "x = (wordA, infoA)" by (cases x)
    with x a have "0 \<le> confidence' infoA"
      by (auto simp: confidencesInRange_def list_all_iff)
    with s xa show "0 \<le> fst (fuzzyOuter wordsMapB s x)"
      by (simp add: fuzzyOuter_def inner)
  qed
  then show ?thesis
    by (simp add: calculateFuzzyMatches_def Let_def)
qed

lemma calculateTextSimilarity_range:
  assumes "\<And>w. w \<in> set (words textA) \<Longrightarrow> 0 \<le> confidence w \<and> confidence w \<le> 1"
    and "\<And>w. w \<in> set (words textB) \<Longrightarrow> 0 \<le> confidence w \<and> confidence w \<le> 1"
  shows "0 \<le> calculateTextSimilarity textA textB \<and> calculateTextSimilarity textA textB \<le> 1"
proof -
  have a: "confidencesInRange (buildWordsMap (words textA))"
    by (rule buildWordsMap_range) (rule assms(1))
  have b: "confidencesInRange (buildWordsMap (words textB))"
    by (rule buildWordsMap_range) (rule assms(2))
  note j = weightedJaccardSim_range [OF a b]
  note f = calculateFuzzyMatches_range [OF a b]
  note p = calculatePhraseMatches_range [of "text textA" "text textB"]
  from j f p show ?thesis
    by (simp add: calculateTextSimilarity_def Let_def)
qed


section \<open>Properties of the adaptive weights\<close>

lemma adjustedWeights_positive:
  assumes "0 \<le> textSim" "textSim \<le> 1"
  shows "0 < cosine (adjustedWeights chars hst textSim cosSim euclideanSim colorSim)"
    and "0 < euclidean (adjustedWeights chars hst textSim cosSim euclideanSim colorSim)"
    and "0 < manhattan (adjustedWeights chars hst textSim cosSim euclideanSim colorSim)"
    and "0 < color (adjustedWeights chars hst textSim cosSim euclideanSim colorSim)"
    and "0 < visualProps (adjustedWeights chars hst textSim cosSim euclideanSim colorSim)"
    and "0 < text' (adjustedWeights chars hst textSim cosSim euclideanSim colorSim)"
  using assms by (simp_all add: adjustedWeights_def Let_def min_def)

lemma totalWeight_positive:
  assumes "0 \<le> textSim" "textSim \<le> 1"
  shows "0 < totalWeight (adjustedWeights chars hst textSim cosSim euclideanSim colorSim)"
  unfolding totalWeight_def
  using adjustedWeights_positive [OF assms, of chars hst cosSim euclideanSim colorSim]
  by linarith

lemma normalized_sum:
  fixes t :: real
  assumes "t \<noteq> 0" "t = a + b + c + d + e + f"
  shows "a / t + b / t + c / t + d / t + e / t + f / t = 1"
proof -
  have "a / t + b / t + c / t + d / t + e / t + f / t = (a + b + c + d + e + f) / t"
    by (simp add: add_divide_distrib)
  with assms show ?thesis by simp
qed

text \<open>
  Whatever the scores are, the returned weights sum to \<open>1\<close> when the sum of the weights
  before the normalisation is not zero.
\<close>

lemma normalized_weights_sum:
  assumes "totalWeight (adjustedWeights chars hst textSim cosSim euclideanSim colorSim) \<noteq> 0"
  shows "totalWeight (getAdaptiveWeights chars hst textSim cosSim euclideanSim colorSim) = 1"
  using assms unfolding getAdaptiveWeights_def Let_def
  by (simp add: totalWeight_def normalized_sum)

lemma fraction_in_unit:
  fixes w t :: real
  assumes "0 < w" "w < t"
  shows "0 < w / t \<and> w / t < 1"
  using assms by simp

text \<open>
  Claim C6. For every combination of the characteristic flags, of \<open>hasSignificantText\<close>
  and of the raw scores, the text score being a similarity between \<open>0\<close> and \<open>1\<close>, the
  six weights returned by \<open>getAdaptiveWeights\<close> sum to \<open>1\<close>, hence to \<open>1\<close> within
  \<open>1e-9\<close>.
\<close>

theorem adaptive_weights_sum_to_one:
  assumes "0 \<le> textSim" "textSim \<le> 1"
  shows "totalWeight (getAdaptiveWeights chars hst textSim cosSim euclideanSim colorSim) = 1
       \<and> \<bar>totalWeight (getAdaptiveWeights chars hst textSim cosSim euclideanSim colorSim) - 1\<bar>
           \<le> 1 / 10 ^ 9"
proof -
  have "totalWeight (adjustedWeights chars hst textSim cosSim euclideanSim colorSim) \<noteq> 0"
    using totalWeight_positive [OF assms, of chars hst cosSim euclideanSim colorSim] by simp
  then have "totalWeight (getAdaptiveWeights chars hst textSim cosSim euclideanSim colorSim) = 1"
    by (rule normalized_weights_sum)
  then show ?thesis by simp
qed

theorem adaptive_weights_sum_to_one_witness:
  "totalWeight (getAdaptiveWeights
      \<lparr>isTextHeavy = True, isColorful = True, isHighContrast = False, isDetailed = True\<rparr>
      True 0.5 0.9 0.7 0.95) = 1"
  using adaptive_weights_sum_to_one [of "0.5"
      "\<lparr>isTextHeavy = True, isColorful = True, isHighContrast = False, isDetailed = True\<rparr>"
      True "0.9" "0.7" "0.95"]
  by simp

text \<open>
  Claim C10. For every input of \<open>getAdaptiveWeights\<close> whose text score is a similarity
  between \<open>0\<close> and \<open>1\<close>, the six weights before the normalisation are strictly
  positive, their sum is not zero, and every returned weight lies strictly between \<open>0\<close>
  and \<open>1\<close>.
\<close>

theorem adaptive_weights_positive:
  assumes "0 \<le> textSim" "textSim \<le> 1"
  shows "let pre = adjustedWeights chars hst textSim cosSim euclideanSim colorSim;
             w = getAdaptiveWeights chars hst textSim cosSim euclideanSim colorSim
         in 0 < cosine pre \<and> 0 < euclidean pre \<and> 0 < manhattan pre \<and> 0 < color pre
            \<and> 0 < visualProps pre \<and> 0 < text' pre
            \<and> totalWeight pre \<noteq> 0
            \<and> 0 < cosine w \<and> cosine w < 1 \<and> 0 < euclidean w \<and> euclidean w < 1
            \<and> 0 < manhattan w \<and> manhattan w < 1 \<and> 0 < color w \<and> color w < 1
            \<and> 0 < visualProps w \<and> visualProps w < 1 \<and> 0 < text' w \<and> text' w < 1"
proof -
  define pre where "pre = adjustedWeights chars hst textSim cosSim euclideanSim colorSim"
  define w where "w = getAdaptiveWeights chars hst textSim cosSim euclideanSim colorSim"
  note p = adjustedWeights_positive [OF assms, of chars hst cosSim euclideanSim colorSim,
      folded pre_def]
  have lt: "cosine pre < totalWeight pre" "euclidean pre < totalWeight pre"
    "manhattan pre < totalWeight pre" "color pre < totalWeight pre"
    "visualProps pre < totalWeight pre" "text' pre < totalWeight pre"
    unfolding totalWeight_def using p by linarith+
  have w: "cosine w = cosine pre / totalWeight pre" "euclidean w = euclidean pre / totalWeight pre"
    "manhattan w = manhattan pre / totalWeight pre" "color w = color pre / totalWeight pre"
    "visualProps w = visualProps pre / totalWeight pre" "text' w = text' pre / totalWeight pre"
    by (simp_all add: w_def pre_def getAdaptiveWeights_def Let_def)
  have nz: "totalWeight pre \<noteq> 0" using lt(1) p(1) by linarith
  have "0 < cosine pre \<and> 0 < euclidean pre \<and> 0 < manhattan pre \<and> 0 < color pre
            \<and> 0 < visualProps pre \<and> 0 < text' pre
            \<and> totalWeight pre \<noteq> 0
            \<and> 0 < cosine w \<and> cosine w < 1 \<and> 0 < euclidean w \<and> euclidean w < 1
            \<and> 0 < manhattan w \<and> manhattan w < 1 \<and> 0 < color w \<and> color w < 1
            \<and> 0 < visualProps w \<and> visualProps w < 1 \<and> 0 < text' w \<and> text' w < 1"
    unfolding w
    using p nz fraction_in_unit [OF p(1) lt(1)] fraction_in_unit [OF p(2) lt(2)]
      fraction_in_unit [OF p(3) lt(3)] fraction_in_unit [OF p(4) lt(4)]
      fraction_in_unit [OF p(5) lt(5)] fraction_in_unit [OF p(6) lt(6)]
    by blast
  then show ?thesis unfolding Let_def pre_def w_def .
qed

theorem adaptive_weights_positive_witness:
  "let pre = adjustedWeights
               \<lparr>isTextHeavy = True, isColorful = True, isHighContrast = False, isDetailed = True\<rparr>
               False 1 0.9 0.7 0.95;
       w = getAdaptiveWeights
               \<lparr>isTextHeavy = True, isColorful = True, isHighContrast = False, isDetailed = True\<rparr>
               False 1 0.9 0.7 0.95
   in 0 < cosine pre \<and> 0 < color pre \<and> totalWeight pre \<noteq> 0 \<and> 0 < cosine w \<and> cosine w < 1"
  using adaptive_weights_positive [of 1
      "\<lparr>isTextHeavy = True, isColorful = True, isHighContrast = False, isDetailed = True\<rparr>"
      False "0.9" "0.7" "0.95"]
  unfolding Let_def by simp

text \<open>
  The text score that \<open>scoreImage\<close> passes to \<open>getAdaptiveWeights\<close> is \<open>0\<close> or a
  value of \<open>calculateTextSimilarity\<close>: it lies between \<open>0\<close> and \<open>1\<close> when the word
  confidences of the query text and of the stored text do.
\<close>

lemma scoreImage_text_range:
  assumes "scoreImage e q t img = Inr r"
    and "\<And>tq w. t = Some tq \<Longrightarrow> w \<in> set (words tq) \<Longrightarrow> 0 \<le> confidence w \<and> confidence w \<le> 1"
    and "\<And>ti w. textContent img = Some ti \<Longrightarrow> w \<in> set (words ti)
           \<Longrightarrow> 0 \<le> confidence w \<and> confidence w \<le> 1"
  shows "0 \<le> text' (metrics r) \<and> text' (metrics r) \<le> 1"
proof -
  let ?textSim = "(case (t, textContent img) of
                 (Some tq, Some ti) \<Rightarrow>
                   if text tq \<noteq> [] \<and> text ti \<noteq> [] then calculateTextSimilarity tq ti else 0
               | _ \<Rightarrow> 0)"
  have eq: "text' (metrics r) = ?textSim"
    using assms(1)
    by (auto simp: scoreImage_def Let_def imageRecord.defs scoredRecord.defs
        split: sum.splits)
  have "0 \<le> ?textSim \<and> ?textSim \<le> 1"
  proof (cases t)
    case None
    then show ?thesis by simp
  next
    case (Some tq)
    show ?thesis
    proof (cases "textContent img")
      case None
      with Some show ?thesis by simp
    next
      case (Some ti)
      have "0 \<le> calculateTextSimilarity tq ti \<and> calculateTextSimilarity tq ti \<le> 1"
        using assms(2) [OF \<open>t = Some tq\<close>] assms(3) [OF Some]
        by (intro calculateTextSimilarity_range)
      with \<open>t = Some tq\<close> Some show ?thesis by simp
    qed
  qed
  with eq show ?thesis by simp
qed

section \<open>The gap rule of the threshold selector\<close>

lemma analyzeDistribution_gaps:
  "scores \<noteq> [] \<Longrightarrow>
     gaps (analyzeDistribution scores) =
       take 3 (sortDescending
         (map (\<lambda>i. sortDescending scores ! i - sortDescending scores ! (i + 1))
              [0..<length scores - 1]))"
  by (simp add: analyzeDistribution_def Let_def)

lemma analyzeDistribution_quartiles:
  "scores \<noteq> [] \<Longrightarrow>
     quartiles (analyzeDistribution scores) =
       (sortDescending scores ! (length scores div 4),
        sortDescending scores ! (length scores div 2),
        sortDescending scores ! (3 * length scores div 4))"
  by (simp add: analyzeDistribution_def Let_def)

lemma sampleScored_sel:
  "similarity (sampleScored s t) = s" "text' (metrics (sampleScored s t)) = t"
  by (simp_all add: sampleScored_def)

lemma similarity_samples:
  "map similarity textBatch = [9/10, 4/5, 1/2]"
  "map similarity leadingGapBatch = [7/10, 1/2, 1/2]"
  "map similarity plainBatch = [9/10, 4/5, 1/2]"
  by (simp_all add: textBatch_def leadingGapBatch_def plainBatch_def sampleScored_sel)

lemma stats_high:
  "gaps (analyzeDistribution [9/10, 4/5, 1/2]) = [3/10, 1/10]"
  "quartiles (analyzeDistribution [9/10, 4/5, 1/2]) = (9/10, 4/5, 1/2)"
  by (simp_all add: analyzeDistribution_gaps analyzeDistribution_quartiles sortDescending_def)

lemma stats_leading:
  "gaps (analyzeDistribution [7/10, 1/2, 1/2]) = [1/5, 0]"
  "quartiles (analyzeDistribution [7/10, 1/2, 1/2]) = (7/10, 1/2, 1/2)"
  by (simp_all add: analyzeDistribution_gaps analyzeDistribution_quartiles sortDescending_def)

lemma gapIndex_samples:
  "findGapIndex [9/10, 4/5, 1/2] (3/10) = 1"
  "findGapIndex [7/10, 1/2, 1/2] (1/5) = 0"
  by (simp_all add: findGapIndex_def)

lemma nth_samples:
  "similarity (textBatch ! 0) = 9/10" "similarity (textBatch ! 1) = 4/5"
  "similarity (textBatch ! 2) = 1/2"
  "similarity (leadingGapBatch ! 0) = 7/10" "similarity (leadingGapBatch ! 1) = 1/2"
  "similarity (leadingGapBatch ! 2) = 1/2"
  "similarity (plainBatch ! 0) = 9/10" "similarity (plainBatch ! 1) = 4/5"
  "similarity (plainBatch ! 2) = 1/2"
  "similarity (textBatch ! Suc 0) = 4/5" "similarity (textBatch ! Suc (Suc 0)) = 1/2"
  "similarity (leadingGapBatch ! Suc 0) = 1/2" "similarity (leadingGapBatch ! Suc (Suc 0)) = 1/2"
  "similarity (plainBatch ! Suc 0) = 4/5" "similarity (plainBatch ! Suc (Suc 0)) = 1/2"
  by (simp_all add: textBatch_def leadingGapBatch_def plainBatch_def sampleScored_sel)

lemma length_samples:
  "length textBatch = 3" "length leadingGapBatch = 3" "length plainBatch = 3"
  by (simp_all add: textBatch_def leadingGapBatch_def plainBatch_def)

lemma text_samples:
  "hasTextMatches textBatch" "\<not> hasTextMatches leadingGapBatch" "\<not> hasTextMatches plainBatch"
  by (simp_all add: hasTextMatches_def textBatch_def leadingGapBatch_def plainBatch_def
      sampleScored_sel)

lemma gapBlock_samples:
  "gapBlock textBatch (analyzeDistribution [9/10, 4/5, 1/2]) (9/20) = 13/20"
  "gapBlock leadingGapBatch (analyzeDistribution [7/10, 1/2, 1/2]) (9/20) = 9/20"
  "gapBlock plainBatch (analyzeDistribution [9/10, 4/5, 1/2]) (9/20) = 13/20"
  by (simp_all add: gapBlock_def similarity_samples stats_high stats_leading gapIndex_samples
      length_samples nth_samples)


lemma threshold_samples:
  "determineOptimalThreshold textBatch (analyzeDistribution (map similarity textBatch)) = 117/200"
  "determineOptimalThreshold leadingGapBatch (analyzeDistribution (map similarity leadingGapBatch)) = 9/20"
  "determineOptimalThreshold plainBatch (analyzeDistribution (map similarity plainBatch)) = 13/20"
  by (simp_all add: determineOptimalThreshold_def gapBlock_samples quartileBlock_def
      topResultBlock_def textBlock_def text_samples length_samples nth_samples similarity_samples stats_high
      stats_leading)

lemma findGapIndexFrom_first:
  assumes "j + 1 < length xs" "\<bar>xs ! j - xs ! (j + 1) - g\<bar> < 0.001"
  shows "\<exists>i \<le> j. findGapIndexFrom n xs g = int (n + i)"
  using assms
proof (induction n xs g arbitrary: j rule: findGapIndexFrom.induct)
  case (1 i x y rest targetGap)
  show ?case
  proof (cases "\<bar>x - y - targetGap\<bar> < 0.001")
    case True
    then show ?thesis by (intro exI [of _ 0]) simp
  next
    case False
    with "1.prems" obtain j' where j': "j = Suc j'" by (cases j) auto
    with "1.prems" have "j' + 1 < length (y # rest)"
      "\<bar>(y # rest) ! j' - (y # rest) ! (j' + 1) - targetGap\<bar> < 0.001" by auto
    from "1.IH" [OF False this] obtain i' where "i' \<le> j'"
      "findGapIndexFrom (Suc i) (y # rest) targetGap = int (Suc i + i')" by blast
    with False j' show ?thesis by (intro exI [of _ "Suc i'"]) simp
  qed
qed simp_all

lemma quartileBlock_mono: "t \<le> quartileBlock stats t"
  by (simp add: quartileBlock_def split: prod.splits)

lemma topResultBlock_mono: "t \<le> topResultBlock results t"
  by (simp add: topResultBlock_def)

lemma gapBlock_at:
  assumes "gaps stats = g # gs" "g > 0.1"
    and "findGapIndex (map similarity results) g = int i" "0 < i" "i + 1 < length results"
  shows "gapBlock results stats t
           = max t ((similarity (results ! i) + similarity (results ! (i + 1))) / 2)"
  using assms by (simp add: gapBlock_def Let_def)

lemma clamp_mono:
  fixes a b :: real
  assumes "a \<le> b"
  shows "min 0.85 a \<le> min (max 0.4 b) 0.85"
  using assms by (simp add: min_def max_def)

lemma gaps_nonempty:
  assumes "2 \<le> length scores"
  shows "gaps (analyzeDistribution scores) \<noteq> []"
proof -
  have "scores \<noteq> []" using assms by auto
  then have "length (gaps (analyzeDistribution scores)) = min (length scores - 1) 3"
    by (simp add: analyzeDistribution_gaps sortDescending_def)
  with assms show ?thesis by auto
qed

lemma sorted_map_uminus:
  fixes xs :: "real list"
  shows "sorted (map uminus xs) = sorted (rev xs)"
  by (induction xs) (auto simp: sorted_append)

lemma hd_sortDescending:
  assumes "ds \<noteq> []"
  shows "hd (sortDescending ds) \<in> set ds \<and> (\<forall>d \<in> set ds. d \<le> hd (sortDescending ds))"
proof -
  define ys where "ys = sort_key uminus ds"
  have sets: "set ys = set ds" by (simp add: ys_def)
  with assms have ne: "ys \<noteq> []" by auto
  then obtain h t where ht: "ys = h # t" by (cases ys) auto
  have "sorted (map uminus ys)" unfolding ys_def by (rule sorted_sort_key)
  with ht have le: "\<forall>y \<in> set t. y \<le> h" by simp
  from sets ht have "set ds = insert h (set t)" by simp
  with le show ?thesis unfolding sortDescending_def ys_def [symmetric] ht by auto
qed

lemma largest_gap_of_sorted:
  assumes desc: "sorted (rev scores)" and len: "2 \<le> length scores"
  shows "(\<exists>k. k + 1 < length scores
             \<and> scores ! k - scores ! (k + 1) = hd (gaps (analyzeDistribution scores)))
       \<and> (\<forall>j. j + 1 < length scores
             \<longrightarrow> scores ! j - scores ! (j + 1) \<le> hd (gaps (analyzeDistribution scores)))"
proof -
  define ds where "ds = map (\<lambda>i. scores ! i - scores ! (i + 1)) [0..<length scores - 1]"
  define m where "m = hd (sortDescending ds)"
  have same: "sortDescending scores = scores"
    unfolding sortDescending_def
    by (rule sort_key_id_if_sorted) (simp add: sorted_map_uminus desc)
  have ne: "ds \<noteq> []" using len by (simp add: ds_def)
  have "set (sortDescending ds) = set ds" by (simp add: sortDescending_def)
  with ne have ne': "sortDescending ds \<noteq> []" by auto
  have "scores \<noteq> []" using len by auto
  then have "gaps (analyzeDistribution scores) = take 3 (sortDescending ds)"
    by (simp add: analyzeDistribution_gaps same ds_def)
  then have hd: "hd (gaps (analyzeDistribution scores)) = m"
    unfolding m_def using ne' by (cases "sortDescending ds") simp_all
  from hd_sortDescending [OF ne] have mem: "m \<in> set ds" and top: "\<And>d. d \<in> set ds \<Longrightarrow> d \<le> m"
    unfolding m_def by simp_all
  have setds: "set ds = (\<lambda>i. scores ! i - scores ! (i + 1)) ` {0..<length scores - 1}"
    by (simp add: ds_def)
  from mem obtain k where k: "k < length scores - 1" "m = scores ! k - scores ! (k + 1)"
    unfolding setds by auto
  have ex: "\<exists>k. k + 1 < length scores \<and> scores ! k - scores ! (k + 1) = m"
  proof (intro exI conjI)
    show "k + 1 < length scores" using k(1) by simp
    show "scores ! k - scores ! (k + 1) = m" using k(2) by simp
  qed
  have all: "scores ! j - scores ! (j + 1) \<le> m" if "j + 1 < length scores" for j
  proof (rule top)
    from that have "j \<in> {0..<length scores - 1}" by simp
    then show "scores ! j - scores ! (j + 1) \<in> set ds" unfolding setds by (rule imageI)
  qed
  from ex all show ?thesis unfolding hd by blast
qed


text \<open>
  Claim C5, as stated, fails in two ways. In \<open>textBatch\<close> the largest gap (\<open>0.3\<close>) is
  between the second and the third result, whose midpoint is \<open>0.65\<close>, but one result has
  a text metric above \<open>0.5\<close> and the last block lowers the threshold to \<open>0.585\<close>. In
  \<open>leadingGapBatch\<close> the largest gap (\<open>0.2\<close>) is between the first two results, the
  guard \<^verbatim>\<open>gapIndex > 0\<close> skips it and the threshold stays at \<open>0.45\<close>, below the
  midpoint \<open>0.6\<close>.
\<close>

theorem threshold_below_gap_midpoint:
  "3 \<le> length textBatch
   \<and> sorted (rev (map similarity textBatch))
   \<and> hd (gaps (analyzeDistribution (map similarity textBatch))) > 0.1
   \<and> similarity (textBatch ! 1) - similarity (textBatch ! 2)
        = hd (gaps (analyzeDistribution (map similarity textBatch)))
   \<and> determineOptimalThreshold textBatch (analyzeDistribution (map similarity textBatch))
        < min 0.85 ((similarity (textBatch ! 1) + similarity (textBatch ! 2)) / 2)
   \<and> 3 \<le> length leadingGapBatch
   \<and> sorted (rev (map similarity leadingGapBatch))
   \<and> hd (gaps (analyzeDistribution (map similarity leadingGapBatch))) > 0.1
   \<and> similarity (leadingGapBatch ! 0) - similarity (leadingGapBatch ! 1)
        = hd (gaps (analyzeDistribution (map similarity leadingGapBatch)))
   \<and> determineOptimalThreshold leadingGapBatch
          (analyzeDistribution (map similarity leadingGapBatch))
        < min 0.85 ((similarity (leadingGapBatch ! 0) + similarity (leadingGapBatch ! 1)) / 2)"
proof -
  have a: "3 \<le> length textBatch" "sorted (rev (map similarity textBatch))"
    "hd (gaps (analyzeDistribution (map similarity textBatch))) > 0.1"
    "similarity (textBatch ! 1) - similarity (textBatch ! 2)
        = hd (gaps (analyzeDistribution (map similarity textBatch)))"
    by (simp_all add: length_samples similarity_samples stats_high nth_samples)
  have b: "determineOptimalThreshold textBatch (analyzeDistribution (map similarity textBatch))
        < min 0.85 ((similarity (textBatch ! 1) + similarity (textBatch ! 2)) / 2)"
    by (simp add: threshold_samples nth_samples)
  have c: "3 \<le> length leadingGapBatch" "sorted (rev (map similarity leadingGapBatch))"
    "hd (gaps (analyzeDistribution (map similarity leadingGapBatch))) > 0.1"
    "similarity (leadingGapBatch ! 0) - similarity (leadingGapBatch ! 1)
        = hd (gaps (analyzeDistribution (map similarity leadingGapBatch)))"
    by (simp_all add: length_samples similarity_samples stats_leading nth_samples)
  have d: "determineOptimalThreshold leadingGapBatch
          (analyzeDistribution (map similarity leadingGapBatch))
        < min 0.85 ((similarity (leadingGapBatch ! 0) + similarity (leadingGapBatch ! 1)) / 2)"
    by (simp add: threshold_samples nth_samples)
  from a b c d show ?thesis by (intro conjI)
qed


text \<open>
  Claim C5, amended. Take a batch of at least 3 results sorted by descending similarity
  whose largest gap between consecutive scores (the first entry of \<open>gaps\<close>) exceeds
  \<open>0.1\<close>, and a position \<open>k\<close> where that gap occurs. If the index found by
  \<open>findGapIndex\<close> is not \<open>0\<close>, the threshold is at least the minimum of \<open>0.85\<close>
  and the midpoint of the scores at \<open>k\<close> and \<open>k + 1\<close> when no result has a text metric
  above \<open>0.5\<close>, and at least the minimum of \<open>0.85\<close> and the larger of \<open>0.4\<close> and
  \<open>0.9\<close> times that midpoint when one has.
\<close>

theorem threshold_gap_midpoint:
  assumes len: "3 \<le> length results"
    and desc: "sorted (rev (map similarity results))"
    and big: "hd (gaps (analyzeDistribution (map similarity results))) > 0.1"
    and k: "k + 1 < length results"
      "similarity (results ! k) - similarity (results ! (k + 1))
         = hd (gaps (analyzeDistribution (map similarity results)))"
    and idx: "findGapIndex (map similarity results)
                (hd (gaps (analyzeDistribution (map similarity results)))) \<noteq> 0"
  shows "determineOptimalThreshold results (analyzeDistribution (map similarity results))
           \<ge> min 0.85
                (if hasTextMatches results
                 then max 0.4 (0.9 * ((similarity (results ! k) + similarity (results ! (k + 1))) / 2))
                 else (similarity (results ! k) + similarity (results ! (k + 1))) / 2)"
proof -
  let ?scores = "map similarity results"
  let ?stats = "analyzeDistribution ?scores"
  let ?mid = "(similarity (results ! k) + similarity (results ! (k + 1))) / 2"
  obtain g gs where g: "gaps ?stats = g # gs"
    using gaps_nonempty [of ?scores] len by (cases "gaps ?stats") auto
  then have hd: "hd (gaps ?stats) = g" by simp
  have "\<bar>?scores ! k - ?scores ! (k + 1) - g\<bar> < 0.001"
    using k hd by simp
  with k(1) obtain i where i: "i \<le> k" "findGapIndex ?scores g = int i"
    using findGapIndexFrom_first [of k ?scores g 0] by (auto simp: findGapIndex_def)
  with idx hd have ipos: "0 < i" by simp
  have ilen: "i + 1 < length results" using i(1) k(1) by simp
  have "similarity (results ! k) \<le> similarity (results ! i)"
    using sorted_rev_nth_mono [OF desc i(1)] k(1) ilen by simp
  moreover have "similarity (results ! (k + 1)) \<le> similarity (results ! (i + 1))"
    using sorted_rev_nth_mono [OF desc, of "i + 1" "k + 1"] i(1) k(1) ilen by simp
  ultimately have mid: "?mid \<le> (similarity (results ! i) + similarity (results ! (i + 1))) / 2"
    by simp
  have gbig: "g > 0.1" using big hd by simp
  have eq: "gapBlock results ?stats 0.45
                   = max 0.45 ((similarity (results ! i) + similarity (results ! (i + 1))) / 2)"
    by (rule gapBlock_at [OF g gbig i(2) ipos ilen])
  have t1: "?mid \<le> gapBlock results ?stats 0.45"
    unfolding eq using mid by (rule max.coboundedI2)
  let ?t3 = "topResultBlock results (quartileBlock ?stats (gapBlock results ?stats 0.45))"
  have t3: "?mid \<le> ?t3"
    using t1 quartileBlock_mono [of "gapBlock results ?stats 0.45" ?stats]
      topResultBlock_mono [of "quartileBlock ?stats (gapBlock results ?stats 0.45)" results]
    by linarith
  have "(if hasTextMatches results then max 0.4 (0.9 * ?mid) else ?mid) \<le> textBlock results ?t3"
    using t3 by (simp add: textBlock_def max_def)
  from clamp_mono [OF this] len show ?thesis
    by (simp add: determineOptimalThreshold_def)
qed




theorem threshold_gap_midpoint_witness:
  "3 \<le> length plainBatch
   \<and> sorted (rev (map similarity plainBatch))
   \<and> hd (gaps (analyzeDistribution (map similarity plainBatch))) > 0.1
   \<and> 1 + 1 < length plainBatch
   \<and> similarity (plainBatch ! 1) - similarity (plainBatch ! (1 + 1))
        = hd (gaps (analyzeDistribution (map similarity plainBatch)))
   \<and> findGapIndex (map similarity plainBatch)
        (hd (gaps (analyzeDistribution (map similarity plainBatch)))) \<noteq> 0
   \<and> determineOptimalThreshold plainBatch (analyzeDistribution (map similarity plainBatch))
        \<ge> min 0.85
             (if hasTextMatches plainBatch
              then max 0.4 (0.9 * ((similarity (plainBatch ! 1)
                                     + similarity (plainBatch ! (1 + 1))) / 2))
              else (similarity (plainBatch ! 1) + similarity (plainBatch ! (1 + 1))) / 2)"
proof -
  have h: "3 \<le> length plainBatch" "sorted (rev (map similarity plainBatch))"
    "hd (gaps (analyzeDistribution (map similarity plainBatch))) > 0.1"
    "1 + 1 < length plainBatch"
    "similarity (plainBatch ! 1) - similarity (plainBatch ! (1 + 1))
        = hd (gaps (analyzeDistribution (map similarity plainBatch)))"
    "findGapIndex (map similarity plainBatch)
        (hd (gaps (analyzeDistribution (map similarity plainBatch)))) \<noteq> 0"
    by (simp_all add: length_samples similarity_samples stats_high nth_samples gapIndex_samples)
  from threshold_gap_midpoint [OF h] h show ?thesis
    by (intro conjI)
qed


section \<open>Properties of the search\<close>

lemma mapResult_append:
  "mapResult f (xs @ ys) =
     (case mapResult f xs of
        Inl e \<Rightarrow> Inl e
      | Inr a \<Rightarrow> (case mapResult f ys of Inl e \<Rightarrow> Inl e | Inr b \<Rightarrow> Inr (a @ b)))"
  by (induction xs) (auto split: sum.splits)

lemma calculateSimilaritiesFrom_mapResult:
  "calculateSimilaritiesFrom i results images e q t =
     (case mapResult (scoreImage e q t) (drop i images) of
        Inl err \<Rightarrow> Inl err
      | Inr ys \<Rightarrow> Inr (results @ ys))"
proof (induction i results images e q t rule: calculateSimilaritiesFrom.induct)
  case (1 i results images e q t)
  show ?case
  proof (cases "i < length images")
    case False
    then show ?thesis by (subst calculateSimilaritiesFrom.simps) simp
  next
    case True
    have split: "drop i images = take BATCH_SIZE (drop i images) @ drop (i + BATCH_SIZE) images"
      by (metis append_take_drop_id drop_drop add.commute)
    show ?thesis
    proof (cases "mapResult (scoreImage e q t) (take BATCH_SIZE (drop i images))")
      case (Inl err)
      then show ?thesis
        using True
        by (subst calculateSimilaritiesFrom.simps, subst (2) split)
           (simp add: mapResult_append Let_def del: append_take_drop_id)
    next
      case (Inr batchResults)
      then show ?thesis
        using True "1.IH" [OF True refl Inr]
        by (subst calculateSimilaritiesFrom.simps, subst (2) split)
           (simp add: mapResult_append Let_def split: sum.splits)
    qed
  qed
qed

lemma calculateSimilarities_mapResult:
  "calculateSimilarities images e q t = mapResult (scoreImage e q t) images"
  by (simp add: calculateSimilarities_def calculateSimilaritiesFrom_mapResult split: sum.splits)


lemma scoreImage_stored:
  "\<exists>r. scoreImage [1, 0] (sampleExtract ''data:stored'') None storedImage = Inr r
       \<and> similarity r = 21 / 22 \<and> visualProps (metrics r) = 1"
  by (simp add: scoreImage_def cosineSimilarity_def euclideanDistance_def manhattanDistance_def
      storedImage_def sampleExtract_def Let_def imageRecord.defs scoredRecord.defs
      colorSimilarity_one visualPropertiesSimilarity_def fieldSim_def
      analyzeImageCharacteristics_def exceeds_def truthy_def
      getAdaptiveWeights_def adjustedWeights_def totalWeight_def)

lemma search_stored:
  "\<exists>r. searchWithThreshold sampleExtract [storedImage] [1, 0] None = Inr (Some 0.45, [r])
       \<and> similarity r = 21 / 22 \<and> visualProps (metrics r) = 1"
proof -
  obtain r where r: "scoreImage [1, 0] (sampleExtract ''data:stored'') None storedImage = Inr r"
    "similarity r = 21 / 22" "visualProps (metrics r) = 1"
    using scoreImage_stored by blast
  have q: "searchQueryMetadata sampleExtract [storedImage] = sampleExtract ''data:stored''"
    by (simp add: searchQueryMetadata_def storedImage_def)
  have "searchWithThreshold sampleExtract [storedImage] [1, 0] None = Inr (Some 0.45, [r])"
    by (simp add: searchWithThreshold_def q calculateSimilarities_mapResult r
        determineOptimalThreshold_def Let_def)
  with r show ?thesis by blast
qed


text \<open>
  Claim C7. Whenever the search returns, it returns at most 15 entries, and the
  similarity of every returned entry strictly exceeds the threshold computed in that call
  (on an empty store no threshold is computed and nothing is returned).
\<close>

theorem search_bounded:
  assumes "searchImagesByEmbedding extract images e t = Inr returned"
  shows "length returned \<le> 15
       \<and> (\<exists>th. searchWithThreshold extract images e t = Inr (th, returned)
             \<and> (case th of
                   None \<Rightarrow> images = [] \<and> returned = []
                 | Some threshold \<Rightarrow> \<forall>r \<in> set returned. similarity r > threshold))"
proof -
  obtain th where w: "searchWithThreshold extract images e t = Inr (th, returned)"
    using assms by (auto simp: searchImagesByEmbedding_def split: sum.splits)
  show ?thesis
  proof (cases "images = []")
    case True
    with w show ?thesis by (auto simp: searchWithThreshold_def)
  next
    case False
    with w obtain scored where
      th: "th = Some (determineOptimalThreshold (sort_key (\<lambda>r. - similarity r) scored)
                 (analyzeDistribution (map similarity (sort_key (\<lambda>r. - similarity r) scored))))"
      and ret: "returned = take 15 (filter (\<lambda>img. similarity img > the th)
                  (sort_key (\<lambda>r. - similarity r) scored))"
      by (auto simp: searchWithThreshold_def Let_def split: sum.splits)
    have "length returned \<le> 15" by (subst ret) simp
    moreover have "\<forall>r \<in> set returned. similarity r > the th"
      by (subst ret) (auto dest: in_set_takeD)
    ultimately show ?thesis using w th by auto
  qed
qed


theorem search_bounded_witness:
  "\<exists>r. searchImagesByEmbedding sampleExtract [storedImage] [1, 0] None = Inr [r]
       \<and> length [r] \<le> 15
       \<and> searchWithThreshold sampleExtract [storedImage] [1, 0] None = Inr (Some 0.45, [r])
       \<and> similarity r > 0.45"
proof -
  obtain r where r: "searchWithThreshold sampleExtract [storedImage] [1, 0] None
                       = Inr (Some 0.45, [r])"
    using search_stored by blast
  then have ret: "searchImagesByEmbedding sampleExtract [storedImage] [1, 0] None = Inr [r]"
    by (simp add: searchImagesByEmbedding_def)
  from search_bounded [OF ret] r have "length [r] \<le> 15" "similarity r > 0.45"
    by simp_all
  with r ret show ?thesis by blast
qed

text \<open>
  The search returns a result whenever every stored embedding has the length of the
  query embedding.
\<close>

lemma mapResult_total:
  assumes "\<And>x. x \<in> set xs \<Longrightarrow> \<exists>y. f x = Inr y"
  shows "\<exists>ys. mapResult f xs = Inr ys"
  using assms by (induction xs) (fastforce split: sum.splits)+

lemma scoreImage_total:
  "length (embedding img) = length e \<Longrightarrow> \<exists>r. scoreImage e q t img = Inr r"
  by (simp add: scoreImage_def cosineSimilarity_def euclideanDistance_def manhattanDistance_def
      Let_def)

lemma search_returns:
  assumes "\<And>img. img \<in> set images \<Longrightarrow> length (embedding img) = length e"
  shows "\<exists>returned. searchImagesByEmbedding extract images e t = Inr returned"
proof -
  obtain ys where "mapResult (scoreImage e (searchQueryMetadata extract images) t) images = Inr ys"
    using mapResult_total [of images "scoreImage e (searchQueryMetadata extract images) t"]
      scoreImage_total assms by blast
  then show ?thesis
    by (simp add: searchImagesByEmbedding_def searchWithThreshold_def
        calculateSimilarities_mapResult Let_def)
qed


lemma search_depends_on_first_record:
  assumes "extract (dataUrl (images ! 0)) = extract2 (dataUrl (images ! 0))"
  shows "searchWithThreshold extract images e t = searchWithThreshold extract2 images e t"
  using assms by (simp add: searchWithThreshold_def searchQueryMetadata_def)

text \<open>
  Claim C1 does not hold of the code: the search is not given the query image, and the
  metadata on the query side of \<open>colorSimilarity\<close> and \<open>visualPropertiesSimilarity\<close>
  is extracted from the image of the first stored record. With one stored record the
  record is compared with its own metadata: its \<open>visualProps\<close> metric is \<open>1\<close>, not the
  value the metadata of the query image gives.
\<close>

theorem query_metadata_from_first_record:
  "searchQueryMetadata sampleExtract [storedImage] = sampleExtract (dataUrl storedImage)
   \<and> sampleExtract (dataUrl storedImage) \<noteq> sampleExtract ''data:query''
   \<and> (\<exists>r. searchImagesByEmbedding sampleExtract [storedImage] [1, 0] None = Inr [r]
          \<and> visualProps (metrics r)
              = visualPropertiesSimilarity (Some (sampleExtract (dataUrl storedImage)))
                  (metadata storedImage)
          \<and> visualProps (metrics r)
              \<noteq> visualPropertiesSimilarity (Some (sampleExtract ''data:query''))
                  (metadata storedImage))"
proof -
  have a: "searchQueryMetadata sampleExtract [storedImage] = sampleExtract (dataUrl storedImage)"
    by (simp add: searchQueryMetadata_def)
  have b: "sampleExtract (dataUrl storedImage) \<noteq> sampleExtract ''data:query''"
    by (simp add: storedImage_def sampleExtract_def)
  have c: "visualPropertiesSimilarity (Some (sampleExtract (dataUrl storedImage)))
             (metadata storedImage) = 1"
    by (simp add: storedImage_def sampleExtract_def visualPropertiesSimilarity_def fieldSim_def)
  have d: "visualPropertiesSimilarity (Some (sampleExtract ''data:query''))
             (metadata storedImage) = 79 / 100"
    by (simp add: storedImage_def sampleExtract_def visualPropertiesSimilarity_def fieldSim_def)
  obtain r where r: "searchWithThreshold sampleExtract [storedImage] [1, 0] None
                       = Inr (Some 0.45, [r])" "visualProps (metrics r) = 1"
    using search_stored by blast
  then have "searchImagesByEmbedding sampleExtract [storedImage] [1, 0] None = Inr [r]"
    by (simp add: searchImagesByEmbedding_def)
  with r(2) a b c d show ?thesis by auto
qed

section \<open>Properties of the vector metrics\<close>

lemma squared_difference_sum:
  fixes a b :: "real list"
  assumes "length a = length b"
  shows "(\<Sum>(x, y)\<leftarrow>zip a b. (x - y) * (x - y)) \<le> 2 * (\<Sum>x\<leftarrow>a. x * x) + 2 * (\<Sum>y\<leftarrow>b. y * y)"
  using assms
proof (induction a b rule: list_induct2)
  case Nil
  show ?case by simp
next
  case (Cons x xs y ys)
  have "(x - y) * (x - y) \<le> 2 * (x * x) + 2 * (y * y)"
    using zero_le_square [of "x + y"] by (simp add: algebra_simps)
  with Cons.IH show ?case by (simp add: algebra_simps)
qed

text \<open>
  The distance of two unit vectors is at most \<open>2\<close>, not \<open>sqrt 2\<close>: the similarity
  \<open>1 - distance / sqrt 2\<close> is at most \<open>1\<close> and at least \<open>1 - sqrt 2\<close>.
\<close>

lemma euclidean_similarity_bounds:
  assumes "length a = length b" "(\<Sum>x\<leftarrow>a. x * x) = 1" "(\<Sum>y\<leftarrow>b. y * y) = 1"
  shows "\<exists>d. euclideanDistance a b = Inr d \<and> 0 \<le> d \<and> d \<le> 2
             \<and> 1 - sqrt 2 \<le> 1 - d / sqrt 2 \<and> 1 - d / sqrt 2 \<le> 1"
proof -
  let ?s = "\<Sum>(x, y)\<leftarrow>zip a b. (x - y) * (x - y)"
  have d: "euclideanDistance a b = Inr (sqrt ?s)"
    using assms(1) by (simp add: euclideanDistance_def)
  have "?s \<le> 4" using squared_difference_sum [OF assms(1)] assms(2,3) by simp
  then have "sqrt ?s \<le> sqrt 4" by (rule real_sqrt_le_mono)
  then have le2: "sqrt ?s \<le> 2" by simp
  have "0 \<le> ?s" by (rule sum_list_nonneg) auto
  then have ge0: "0 \<le> sqrt ?s" by simp
  have "sqrt ?s / sqrt 2 \<le> 2 / sqrt 2" using le2 by (simp add: divide_right_mono)
  also have "2 / sqrt 2 = sqrt 2" by (simp add: real_div_sqrt)
  finally have "1 - sqrt 2 \<le> 1 - sqrt ?s / sqrt 2" by simp
  moreover have "1 - sqrt ?s / sqrt 2 \<le> 1" using ge0 by simp
  ultimately show ?thesis using d ge0 le2 by blast
qed

text \<open>
  Claim C4 does not hold of the code: the query embedding \<open>[1, 0]\<close> and the stored
  embedding \<open>[-1, 0]\<close> are unit vectors of equal length, their distance is \<open>2\<close> and
  the euclidean similarity computed for the record is \<open>1 - sqrt 2\<close>, which is negative.
\<close>

theorem euclidean_similarity_negative:
  "(\<Sum>x\<leftarrow>[1, 0]. x * x) = (1::real)
   \<and> (\<Sum>x\<leftarrow>embedding oppositeImage. x * x) = 1
   \<and> length (embedding oppositeImage) = length [1, 0 :: real]
   \<and> (case scoreImage [1, 0] emptyMetadata None oppositeImage of
         Inl e \<Rightarrow> False
       | Inr r \<Rightarrow> euclidean (metrics r) = 1 - sqrt 2 \<and> euclidean (metrics r) < 0)"
proof -
  have d: "euclideanDistance [1, 0] [- 1, 0] = Inr 2"
    by (simp add: euclideanDistance_def)
  have "case scoreImage [1, 0] emptyMetadata None oppositeImage of
         Inl e \<Rightarrow> False
       | Inr r \<Rightarrow> euclidean (metrics r) = 1 - sqrt 2"
    by (simp add: scoreImage_def d cosineSimilarity_def manhattanDistance_def oppositeImage_def
        Let_def imageRecord.defs scoredRecord.defs real_div_sqrt)
  moreover have "1 - sqrt 2 < 0" by simp
  ultimately show ?thesis by (auto simp: oppositeImage_def split: sum.splits)
qed

end
